theory Spec2Isabelle
  imports Complex_Main
begin

section \<open>Values and the browser environment\<close>

text \<open>
  The plant application keeps its records in three places: the Redux slice
  (\<open>plantsSlice\<close>), the module-level cache of \<open>services/api.js\<close>, and one
  \<open>localStorage\<close> item written by \<open>utils/storage.js\<close>. Every function that the
  JavaScript runs for its effect is modelled here as a function from the state it
  touches to the state it leaves; every \<open>throw\<close> is a value \<open>Inl e\<close>.
\<close>

datatype js_error =
    SecurityError
  | QuotaExceededError
  | SyntaxError
  | TypeError string
  | Error string

text \<open>
  What \<open>JSON.parse\<close> can return: any JSON value, not only an array. The type of
  the elements of an array is a parameter; for the plant mirror it is the type of
  the plant records.
\<close>

datatype 'p json =
    JNull
  | JBool bool
  | JNum real
  | JStr string
  | JArr "'p list"
  | JObj "(string \<times> 'p json) list"

fun isArray :: "'p json \<Rightarrow> bool" where
  "isArray (JArr xs) = True"
| "isArray v = False"

text \<open>Truthiness of a parsed value: \<open>null\<close>, \<open>false\<close>, \<open>0\<close> and \<open>""\<close> are falsy.\<close>

fun truthy_json :: "'p json \<Rightarrow> bool" where
  "truthy_json JNull = False"
| "truthy_json (JBool b) = b"
| "truthy_json (JNum x) = (x \<noteq> 0)"
| "truthy_json (JStr s) = (s \<noteq> [])"
| "truthy_json (JArr xs) = True"
| "truthy_json (JObj kvs) = True"

text \<open>
  \<open>v.length > 0\<close> for a truthy parsed value \<open>v\<close>: an array and a string have a
  length; a number and a boolean have none (\<open>undefined > 0\<close> is false); an object
  has the one it carries as a property, the last of duplicate keys, compared with
  \<open>0\<close> by JavaScript's coercing comparison, which is the parameter \<open>positive\<close>.
\<close>

fun length_gt0 :: "('p json \<Rightarrow> bool) \<Rightarrow> 'p json \<Rightarrow> bool" where
  "length_gt0 positive (JArr xs) = (xs \<noteq> [])"
| "length_gt0 positive (JStr s) = (s \<noteq> [])"
| "length_gt0 positive (JObj kvs) =
     (case map_of (rev kvs) ''length'' of None \<Rightarrow> False | Some x \<Rightarrow> positive x)"
| "length_gt0 positive v = False"

text \<open>
  The browser as \<open>storage.js\<close> sees it: the one item stored under \<open>STORAGE_KEY\<close>
  (\<open>None\<close> when \<open>getItem\<close> answers \<open>null\<close>), whether \<open>localStorage\<close> can be used
  at all, how many characters the item may hold before \<open>setItem\<close> throws, and the
  lines written with \<open>console.error\<close> (what \<open>console.log\<close> prints is not kept).
\<close>

record browser =
  localStorage_available :: bool
  localStorage_quota :: nat
  localStorage_item :: "string option"
  console :: "string list"

definition STORAGE_KEY :: string where
  "STORAGE_KEY = ''farm-geotag-plants''"

definition getItem :: "browser \<Rightarrow> js_error + string option" where
  "getItem b = (if localStorage_available b then Inr (localStorage_item b) else Inl SecurityError)"

definition setItem :: "string \<Rightarrow> browser \<Rightarrow> js_error + browser" where
  "setItem v b =
     (if \<not> localStorage_available b then Inl SecurityError
      else if localStorage_quota b < length v then Inl QuotaExceededError
      else Inr (b\<lparr>localStorage_item := Some v\<rparr>))"

definition console_error :: "string \<Rightarrow> browser \<Rightarrow> browser" where
  "console_error msg b = b\<lparr>console := console b @ [msg]\<rparr>"

section \<open>utils/storage.js\<close>

text \<open>
  \<open>JSON.stringify\<close> and \<open>JSON.parse\<close> belong to the platform, so both are
  parameters: \<open>JSON_stringify\<close> serialises a collection, \<open>JSON_parse\<close> answers
  \<open>Inl SyntaxError\<close> where the platform throws.

  \<open>savePlantsToLocal\<close>: the \<open>try\<close> block is the \<open>setItem\<close>; the \<open>catch\<close> logs and
  answers \<open>false\<close>, leaving the item as it was.
\<close>

definition savePlantsToLocal :: "('c \<Rightarrow> string) \<Rightarrow> 'c \<Rightarrow> browser \<Rightarrow> bool \<times> browser" where
  "savePlantsToLocal JSON_stringify plants b =
     (case setItem (JSON_stringify plants) b of
        Inr b' \<Rightarrow> (True, b')
      | Inl e \<Rightarrow> (False, console_error ''Failed to save to localStorage:'' b))"

text \<open>
  \<open>loadPlantsFromLocal\<close>: the \<open>try\<close> block reads the item and parses it when the
  item is truthy (neither \<open>null\<close> nor the empty string); the \<open>catch\<close> logs and
  answers \<open>[]\<close>. The result type keeps an \<open>Inl\<close> for an exception that would
  reach the caller.
\<close>

definition loadPlantsFromLocal_try ::
  "(string \<Rightarrow> js_error + 'p json) \<Rightarrow> browser \<Rightarrow> js_error + 'p json" where
  "loadPlantsFromLocal_try JSON_parse b =
     (case getItem b of
        Inl e \<Rightarrow> Inl e
      | Inr data \<Rightarrow>
          (case data of
             None \<Rightarrow> Inr (JArr [])
           | Some s \<Rightarrow> if s = [] then Inr (JArr []) else JSON_parse s))"

definition loadPlantsFromLocal ::
  "(string \<Rightarrow> js_error + 'p json) \<Rightarrow> browser \<Rightarrow> js_error + ('p json \<times> browser)" where
  "loadPlantsFromLocal JSON_parse b =
     (case loadPlantsFromLocal_try JSON_parse b of
        Inr v \<Rightarrow> Inr (v, b)
      | Inl e \<Rightarrow> Inr (JArr [], console_error ''Failed to load from localStorage:'' b))"

section \<open>Plant records\<close>

text \<open>
  An id is compared with \<open>!==\<close>, which tells a missing id (\<open>undefined\<close>) from
  \<open>null\<close> and from every string, so the three are kept apart.
\<close>

datatype plant_id = Id_undefined | Id_null | Id_string string

text \<open>
  Of the other properties only the truthiness is looked at; there a property
  that is missing (or \<open>null\<close>) is \<open>None\<close>. \<open>plantData\<close> is the draft
  that \<open>savePlantData\<close> receives, \<open>plant\<close> the record the application keeps
  (the field \<open>id\<close> is written \<open>id'\<close>), and \<open>raw_plant\<close> a document as the
  backend sends it, which may carry \<open>_id\<close> and \<open>createdAt\<close> as well.
  Coordinates arrive as JSON numbers, which are finite, so a coordinate is a
  real number; no arithmetic is done on them, only the truthiness test.
\<close>

record plantData =
  imageName :: "string option"
  imageUrl :: "string option"
  latitude :: "real option"
  longitude :: "real option"

record plant = plantData +
  id' :: plant_id
  uploadedAt :: "string option"

record raw_plant = plant +
  underscore_id :: plant_id
  createdAt :: "string option"

text \<open>JavaScript truthiness of an optional string and of an optional number.\<close>

fun truthy_str :: "string option \<Rightarrow> bool" where
  "truthy_str None = False"
| "truthy_str (Some s) = (s \<noteq> [])"

fun truthy_num :: "real option \<Rightarrow> bool" where
  "truthy_num None = False"
| "truthy_num (Some x) = (x \<noteq> 0)"

text \<open>\<open>a || b\<close> on optional strings.\<close>

definition or_else :: "string option \<Rightarrow> string option \<Rightarrow> string option" where
  "or_else a b = (if truthy_str a then a else b)"

text \<open>A value used as a property key or inside a template literal.\<close>

fun to_string :: "string option \<Rightarrow> string" where
  "to_string None = ''undefined''"
| "to_string (Some s) = s"

text \<open>The same three operations on an id.\<close>

fun truthy_id :: "plant_id \<Rightarrow> bool" where
  "truthy_id Id_undefined = False"
| "truthy_id Id_null = False"
| "truthy_id (Id_string s) = (s \<noteq> [])"

definition or_else_id :: "plant_id \<Rightarrow> plant_id \<Rightarrow> plant_id" where
  "or_else_id a b = (if truthy_id a then a else b)"

fun id_to_string :: "plant_id \<Rightarrow> string" where
  "id_to_string Id_undefined = ''undefined''"
| "id_to_string Id_null = ''null''"
| "id_to_string (Id_string s) = s"

text \<open>The object literals that \<open>savePlantData\<close> and \<open>fetchUserPlants\<close> build from a document.\<close>

definition savedPlant :: "raw_plant \<Rightarrow> plant" where
  "savedPlant d =
     \<lparr>imageName = imageName d, imageUrl = imageUrl d,
      latitude = latitude d, longitude = longitude d,
      id' = or_else_id (underscore_id d) (id' d),
      uploadedAt = uploadedAt d\<rparr>"

definition fetchedPlant :: "raw_plant \<Rightarrow> plant" where
  "fetchedPlant d =
     \<lparr>imageName = imageName d, imageUrl = imageUrl d,
      latitude = latitude d, longitude = longitude d,
      id' = or_else_id (underscore_id d) (id' d),
      uploadedAt = or_else (uploadedAt d) (createdAt d)\<rparr>"

section \<open>services/api.js\<close>

text \<open>
  The module state is the \<open>cache\<close> object; \<open>network\<close> lists the requests handed
  to the axios instance, so that a theorem can say whether the backend was
  contacted. What the backend answers is an input: \<open>Throws e\<close> when the awaited
  call rejects (after the interceptor's retries), \<open>Response ok body\<close> when it
  resolves, with \<open>ok\<close> the truthiness of \<open>response.data.success\<close> and \<open>body\<close> the
  value of \<open>response.data.data\<close>.
\<close>

datatype request = POST string | DELETE string

record api_state =
  cache_plants :: "plant list option"
  cache_timestamp :: "int option"
  network :: "request list"

definition CACHE_DURATION :: int where
  "CACHE_DURATION = 2 * 60 * 1000"

text \<open>
  The three shapes of a rejected call that the \<open>catch\<close> blocks tell apart:
  \<open>error.response\<close> is set (with its \<open>data.message\<close>), \<open>error.request\<close> is set,
  or neither (with \<open>error.message\<close>).
\<close>

datatype failure =
    ServerError "string option"
  | NetworkError
  | OtherError "string option"

datatype 'a reply = Throws failure | Response bool 'a

record 'a result =
  success :: bool
  data :: 'a
  error :: "string option"
  fromCache :: "bool option"

fun truthy_time :: "int option \<Rightarrow> bool" where
  "truthy_time None = False"
| "truthy_time (Some t) = (t \<noteq> 0)"

definition send :: "request \<Rightarrow> api_state \<Rightarrow> api_state" where
  "send r a = a\<lparr>network := network a @ [r]\<rparr>"

definition invalidate :: "api_state \<Rightarrow> api_state" where
  "invalidate a = a\<lparr>cache_plants := None, cache_timestamp := None\<rparr>"

text \<open>The message the \<open>catch\<close> block of \<open>savePlantData\<close> computes.\<close>

fun errorMessage :: "string \<Rightarrow> failure \<Rightarrow> string" where
  "errorMessage dflt (ServerError m) = (if truthy_str m then to_string m else dflt)"
| "errorMessage dflt NetworkError = ''Network error. Please check your connection.''"
| "errorMessage dflt (OtherError m) = (if truthy_str m then to_string m else dflt)"

text \<open>\<open>savePlantData\<close>: the \<open>try\<close> block, then the function with its \<open>catch\<close>.\<close>

definition savePlantData_try ::
  "'z plantData_scheme \<Rightarrow> raw_plant option reply \<Rightarrow> api_state
     \<Rightarrow> (failure + plant option result) \<times> api_state" where
  "savePlantData_try plantData rep a =
     (if \<not> truthy_str (imageName plantData) \<or> \<not> truthy_str (imageUrl plantData)
         \<or> \<not> truthy_num (latitude plantData) \<or> \<not> truthy_num (longitude plantData)
      then (Inl (OtherError (Some ''Missing required plant data fields'')), a)
      else
        (let a1 = send (POST ''/save-plant-location-data'') a in
         case rep of
           Throws e \<Rightarrow> (Inl e, a1)
         | Response ok body \<Rightarrow>
             if ok then
               (Inr \<lparr>success = True, data = map_option savedPlant body,
                     error = None, fromCache = None\<rparr>,
                invalidate a1)
             else
               (Inr \<lparr>success = False, data = None,
                     error = Some ''Failed to save plant data'', fromCache = None\<rparr>,
                a1)))"

definition savePlantData ::
  "'z plantData_scheme \<Rightarrow> raw_plant option reply \<Rightarrow> api_state
     \<Rightarrow> plant option result \<times> api_state" where
  "savePlantData plantData rep a =
     (case savePlantData_try plantData rep a of
        (Inr r, a') \<Rightarrow> (r, a')
      | (Inl e, a') \<Rightarrow>
          (\<lparr>success = False, data = None,
            error = Some (errorMessage ''Failed to save plant data'' e),
            fromCache = None\<rparr>, a'))"

text \<open>
  \<open>fetchUserPlants\<close>: \<open>now\<close> is what \<open>Date.now()\<close> answers when the cache age is
  computed, \<open>now'\<close> what it answers when the cache is refilled after the await.
\<close>

definition fetchUserPlants_try ::
  "bool \<Rightarrow> int \<Rightarrow> int \<Rightarrow> raw_plant list option reply \<Rightarrow> api_state
     \<Rightarrow> (failure + plant list result) \<times> api_state" where
  "fetchUserPlants_try forceRefresh now now' rep a =
     (if \<not> forceRefresh \<and> cache_plants a \<noteq> None \<and> truthy_time (cache_timestamp a)
         \<and> now - the (cache_timestamp a) < CACHE_DURATION
      then
        (Inr \<lparr>success = True, data = the (cache_plants a), error = None,
              fromCache = Some True\<rparr>, a)
      else
        (let a1 = send (POST ''/get-plant-location-data'') a in
         case rep of
           Throws e \<Rightarrow> (Inl e, a1)
         | Response ok body \<Rightarrow>
             if ok then
               (let plants = map fetchedPlant (case body of None \<Rightarrow> [] | Some ds \<Rightarrow> ds) in
                (Inr \<lparr>success = True, data = plants, error = None, fromCache = Some False\<rparr>,
                 a1\<lparr>cache_plants := Some plants, cache_timestamp := Some now'\<rparr>))
             else
               (Inr \<lparr>success = False, data = [], error = Some ''Failed to fetch plants'',
                     fromCache = None\<rparr>,
                a1)))"

definition fetchUserPlants ::
  "bool \<Rightarrow> int \<Rightarrow> int \<Rightarrow> raw_plant list option reply \<Rightarrow> api_state
     \<Rightarrow> plant list result \<times> api_state" where
  "fetchUserPlants forceRefresh now now' rep a =
     (case fetchUserPlants_try forceRefresh now now' rep a of
        (Inr r, a') \<Rightarrow> (r, a')
      | (Inl e, a') \<Rightarrow>
          (\<lparr>success = False, data = [], error = Some ''API not available'',
            fromCache = None\<rparr>, a'))"

text \<open>
  \<open>deletePlantData\<close>: the result's \<open>data\<close> is the response body on success
  (here its \<open>success\<close> flag) and \<open>null\<close> otherwise.
\<close>

definition deletePlantData_try ::
  "plant_id \<Rightarrow> unit reply \<Rightarrow> api_state \<Rightarrow> (failure + bool option result) \<times> api_state" where
  "deletePlantData_try plantId rep a =
     (let a1 = send (DELETE (''/delete-plant/'' @ id_to_string plantId)) a in
      case rep of
        Throws e \<Rightarrow> (Inl e, a1)
      | Response ok body \<Rightarrow>
          if ok then
            (Inr \<lparr>success = True, data = Some ok, error = None, fromCache = None\<rparr>,
             invalidate a1)
          else
            (Inr \<lparr>success = False, data = None, error = Some ''Failed to delete plant'',
                  fromCache = None\<rparr>,
             a1))"

definition deletePlantData ::
  "plant_id \<Rightarrow> unit reply \<Rightarrow> api_state \<Rightarrow> bool option result \<times> api_state" where
  "deletePlantData plantId rep a =
     (case deletePlantData_try plantId rep a of
        (Inr r, a') \<Rightarrow> (r, a')
      | (Inl e, a') \<Rightarrow>
          (\<lparr>success = True, data = None, error = None, fromCache = None\<rparr>, invalidate a'))"

definition clearCache :: "api_state \<Rightarrow> api_state" where
  "clearCache a = invalidate a"

text \<open>
  The \<open>catch\<close> blocks of \<open>savePlantData\<close> and \<open>deletePlantData\<close> also write a
  line with \<open>console.error\<close>. The functions above give the result and the module
  state; what the same call does to the browser is given here, and a caller
  applies both. A line is written exactly when the \<open>try\<close> block has thrown.
\<close>

definition savePlantData_console ::
  "'z plantData_scheme \<Rightarrow> raw_plant option reply \<Rightarrow> api_state \<Rightarrow> browser \<Rightarrow> browser" where
  "savePlantData_console plantData rep a b =
     (case fst (savePlantData_try plantData rep a) of
        Inr r \<Rightarrow> b
      | Inl e \<Rightarrow> console_error ''Save plant data error:'' b)"

definition deletePlantData_console ::
  "plant_id \<Rightarrow> unit reply \<Rightarrow> api_state \<Rightarrow> browser \<Rightarrow> browser" where
  "deletePlantData_console plantId rep a b =
     (case fst (deletePlantData_try plantId rep a) of
        Inr r \<Rightarrow> b
      | Inl e \<Rightarrow> console_error ''Delete plant error:'' b)"

section \<open>redux/slices/plantsSlice\<close>

text \<open>
  The slice state. The field \<open>error\<close> of the slice is written \<open>state_error\<close>, the
  name \<open>error\<close> being taken by the API results; \<open>filters\<close> is flattened into its
  two members, and the upload queue holds file names. The type of \<open>state.plants\<close>
  is a parameter: a reducer that reads the collection (\<open>unshift\<close>, \<open>filter\<close>)
  needs a list of plants, a reducer that only assigns it stores whatever it is
  given, as the JavaScript does.
\<close>

record 'c plants_state =
  plants :: 'c
  loading :: bool
  uploadProgress :: "string \<Rightarrow> nat option"
  state_error :: "string option"
  filters_sortBy :: string
  filters_searchTerm :: string
  selectedPlant :: "plant option"
  uploadQueue :: "string list"

definition initialState_of :: "'c \<Rightarrow> 'c plants_state" where
  "initialState_of collection =
     \<lparr>plants = collection, loading = False, uploadProgress = (\<lambda>k. None), state_error = None,
      filters_sortBy = ''date'', filters_searchTerm = [], selectedPlant = None,
      uploadQueue = []\<rparr>"

definition initialState :: "plant list plants_state" where
  "initialState = initialState_of []"

text \<open>
  Three reducers call \<open>savePlantsToLocal\<close>, so a reducer maps the slice state and
  the browser to the new pair.
\<close>

definition uploadSuccess ::
  "(plant list \<Rightarrow> string) \<Rightarrow> plant \<Rightarrow> plant list plants_state \<times> browser
     \<Rightarrow> plant list plants_state \<times> browser" where
  "uploadSuccess JSON_stringify payload sb =
     (let s1 = (fst sb)\<lparr>plants := payload # plants (fst sb)\<rparr>;
          s2 = s1\<lparr>uploadProgress := (uploadProgress s1)(to_string (imageName payload) := None)\<rparr>
      in (s2, snd (savePlantsToLocal JSON_stringify (plants s2) (snd sb))))"

definition uploadFailure ::
  "string \<Rightarrow> string \<Rightarrow> 'c plants_state \<times> browser \<Rightarrow> 'c plants_state \<times> browser" where
  "uploadFailure name err sb =
     ((fst sb)\<lparr>uploadProgress := (uploadProgress (fst sb))(name := None),
               state_error := Some err\<rparr>, snd sb)"

definition fetchPlantsStart :: "'c plants_state \<times> browser \<Rightarrow> 'c plants_state \<times> browser" where
  "fetchPlantsStart sb = ((fst sb)\<lparr>loading := True, state_error := None\<rparr>, snd sb)"

definition fetchPlantsSuccess ::
  "('c \<Rightarrow> string) \<Rightarrow> 'c \<Rightarrow> 'c plants_state \<times> browser \<Rightarrow> 'c plants_state \<times> browser" where
  "fetchPlantsSuccess JSON_stringify payload sb =
     (let s1 = (fst sb)\<lparr>plants := payload, loading := False\<rparr>
      in (s1, snd (savePlantsToLocal JSON_stringify (plants s1) (snd sb))))"

definition fetchPlantsFailure ::
  "string \<Rightarrow> 'c plants_state \<times> browser \<Rightarrow> 'c plants_state \<times> browser" where
  "fetchPlantsFailure payload sb = ((fst sb)\<lparr>loading := False, state_error := Some payload\<rparr>, snd sb)"

definition deletePlantStart :: "'c plants_state \<times> browser \<Rightarrow> 'c plants_state \<times> browser" where
  "deletePlantStart sb = ((fst sb)\<lparr>loading := True\<rparr>, snd sb)"

definition deletePlantSuccess ::
  "(plant list \<Rightarrow> string) \<Rightarrow> plant_id \<Rightarrow> plant list plants_state \<times> browser
     \<Rightarrow> plant list plants_state \<times> browser" where
  "deletePlantSuccess JSON_stringify payload sb =
     (let s1 = (fst sb)\<lparr>plants := filter (\<lambda>p. id' p \<noteq> payload) (plants (fst sb)),
                        loading := False\<rparr>
      in (s1, snd (savePlantsToLocal JSON_stringify (plants s1) (snd sb))))"

section \<open>The callers: App, PlantCard and the upload form\<close>

text \<open>
  What a handler runs against: the slice state, the browser and the API module.
  A handler is modelled as run to its end, with the answer of the backend as an
  input; for \<open>handleDelete\<close> the world while the handler waits is given as well.
\<close>

record 'c world =
  slice :: "'c plants_state"
  env :: browser
  api :: api_state

definition dispatch ::
  "('c plants_state \<times> browser \<Rightarrow> 'c plants_state \<times> browser) \<Rightarrow> 'c world \<Rightarrow> 'c world" where
  "dispatch reducer w =
     (let sb = reducer (slice w, env w) in w\<lparr>slice := fst sb, env := snd sb\<rparr>)"

text \<open>
  \<open>handleDelete\<close> of \<open>PlantCard\<close> (\<open>handleDeletePlant\<close> of the map and of the list
  page run the same steps): \<open>confirmed\<close> is the answer of \<open>window.confirm\<close>. The
  value that \<open>deletePlantData\<close> returns is not looked at, and \<open>deletePlantData\<close>
  never rejects, so the \<open>catch\<close> block of the handler is not entered; the
  toasts and the components' own state (\<open>isDeleting\<close>, \<open>deletingId\<close>, the
  selection of the map page) are left out.

  \<open>handleDelete_pending\<close> is the world while \<open>await deletePlantData(plant.id)\<close>
  has not settled: \<open>deletePlantStart\<close> has been dispatched and the request has
  been handed to axios. \<open>handleDelete\<close> is the world when the handler has run to
  its end, \<open>rep\<close> being what the backend answered.
\<close>

definition handleDelete_pending :: "bool \<Rightarrow> plant \<Rightarrow> plant list world \<Rightarrow> plant list world" where
  "handleDelete_pending confirmed plant w =
     (if \<not> confirmed then w
      else
        (let w1 = dispatch deletePlantStart w
         in w1\<lparr>api := send (DELETE (''/delete-plant/'' @ id_to_string (id' plant))) (api w1)\<rparr>))"

definition handleDelete ::
  "(plant list \<Rightarrow> string) \<Rightarrow> bool \<Rightarrow> plant \<Rightarrow> unit reply \<Rightarrow> plant list world
     \<Rightarrow> plant list world" where
  "handleDelete JSON_stringify confirmed plant rep w =
     (if \<not> confirmed then w
      else
        (let w1 = dispatch deletePlantStart w;
             w2 = w1\<lparr>api := snd (deletePlantData (id' plant) rep (api w1)),
                      env := deletePlantData_console (id' plant) rep (api w1) (env w1)\<rparr>
         in dispatch (deletePlantSuccess JSON_stringify (id' plant)) w2))"

text \<open>
  \<open>uploadSingleFile\<close> from its third step on: the image URL and the coordinates
  come from the two earlier steps, \<open>generatedId\<close> is what \<open>generateId()\<close> would
  answer and \<open>isoNow\<close> what \<open>new Date().toISOString()\<close> would. Reading
  \<open>saveResult.data.id\<close> when \<open>data\<close> is \<open>null\<close> throws; the \<open>catch\<close> block
  logs and dispatches \<open>uploadFailure\<close> with the message of whatever was thrown.
\<close>

definition uploadSingleFile_try ::
  "(plant list \<Rightarrow> string) \<Rightarrow> string \<Rightarrow> string option \<Rightarrow> real option \<Rightarrow> real option
     \<Rightarrow> string \<Rightarrow> string \<Rightarrow> raw_plant option reply \<Rightarrow> plant list world
     \<Rightarrow> (js_error + plant) \<times> plant list world" where
  "uploadSingleFile_try JSON_stringify fileName url lat lng generatedId isoNow rep w =
     (let plantData = \<lparr>imageName = Some fileName, imageUrl = url,
                        latitude = lat, longitude = lng\<rparr>;
          sr = savePlantData plantData rep (api w);
          saveResult = fst sr;
          w1 = w\<lparr>api := snd sr, env := savePlantData_console plantData rep (api w) (env w)\<rparr>
      in if \<not> success saveResult then
           (Inl (Error (if truthy_str (error saveResult) then to_string (error saveResult)
                        else ''Failed to save plant data'')), w1)
         else
           (case data saveResult of
              None \<Rightarrow> (Inl (TypeError ''Cannot read properties of null''), w1)
            | Some saved \<Rightarrow>
                (let finalPlantData =
                       \<lparr>imageName = Some fileName, imageUrl = url,
                        latitude = lat, longitude = lng,
                        id' = or_else_id (id' saved) (Id_string generatedId),
                        uploadedAt = or_else (uploadedAt saved) (Some isoNow)\<rparr>
                 in (Inr finalPlantData,
                     dispatch (uploadSuccess JSON_stringify finalPlantData) w1))))"

fun message :: "js_error \<Rightarrow> string" where
  "message (TypeError m) = m"
| "message (Error m) = m"
| "message e = []"

definition uploadSingleFile ::
  "(plant list \<Rightarrow> string) \<Rightarrow> string \<Rightarrow> string option \<Rightarrow> real option \<Rightarrow> real option
     \<Rightarrow> string \<Rightarrow> string \<Rightarrow> raw_plant option reply \<Rightarrow> plant list world
     \<Rightarrow> (string + plant) \<times> plant list world" where
  "uploadSingleFile JSON_stringify fileName url lat lng generatedId isoNow rep w =
     (case uploadSingleFile_try JSON_stringify fileName url lat lng generatedId isoNow rep w of
        (Inr p, w') \<Rightarrow> (Inr p, w')
      | (Inl e, w') \<Rightarrow>
          (Inl (message e),
           dispatch (uploadFailure fileName (message e))
             (w'\<lparr>env := console_error (''Upload error for '' @ fileName @ '':'') (env w')\<rparr>)))"

text \<open>
  \<open>loadFromAPI\<close> of \<open>AppContent\<close>: \<open>localPlants\<close> is the value that
  \<open>loadPlantsFromLocal\<close> returned when the effect started, an array of plants or
  whatever else the mirror parsed to, and the slice it runs on holds a parsed
  value as well. On the failure path \<open>localPlants || []\<close> is dispatched.
  \<open>fetchUserPlants\<close> never rejects, so the \<open>catch\<close> block of \<open>loadFromAPI\<close> (the
  only place that dispatches \<open>fetchPlantsFailure\<close>) is not entered from it.
\<close>

definition loadFromAPI ::
  "(plant json \<Rightarrow> string) \<Rightarrow> plant json \<Rightarrow> int \<Rightarrow> int \<Rightarrow> raw_plant list option reply
     \<Rightarrow> plant json world \<Rightarrow> plant json world" where
  "loadFromAPI JSON_stringify localPlants now now' rep w =
     (let w1 = dispatch fetchPlantsStart w;
          fr = fetchUserPlants False now now' rep (api w1);
          apiResult = fst fr;
          w2 = w1\<lparr>api := snd fr\<rparr>
      in if success apiResult \<and> length (data apiResult) > 0
         then dispatch (fetchPlantsSuccess JSON_stringify (JArr (data apiResult))) w2
         else dispatch (fetchPlantsSuccess JSON_stringify
                          (if truthy_json localPlants then localPlants else JArr [])) w2)"

text \<open>
  The effect of \<open>AppContent\<close> (the theme dispatch left out). First the mirror is
  read, and what was read is dispatched when it is truthy and has a positive
  length, an empty array otherwise: \<open>AppContent_loadLocal\<close> gives what was read
  and the world after that dispatch. Then \<open>loadFromAPI\<close> is started with what
  was read.
\<close>

definition AppContent_loadLocal ::
  "(string \<Rightarrow> js_error + plant json) \<Rightarrow> (plant json \<Rightarrow> string) \<Rightarrow> (plant json \<Rightarrow> bool)
     \<Rightarrow> plant json world \<Rightarrow> js_error + (plant json \<times> plant json world)" where
  "AppContent_loadLocal JSON_parse JSON_stringify positive w =
     (case loadPlantsFromLocal JSON_parse (env w) of
        Inl e \<Rightarrow> Inl e
      | Inr (localPlants, b) \<Rightarrow>
          (let w0 = w\<lparr>env := b\<rparr>
           in if truthy_json localPlants \<and> length_gt0 positive localPlants
              then Inr (localPlants, dispatch (fetchPlantsSuccess JSON_stringify localPlants) w0)
              else Inr (localPlants, dispatch (fetchPlantsSuccess JSON_stringify (JArr [])) w0)))"

definition AppContent_useEffect ::
  "(string \<Rightarrow> js_error + plant json) \<Rightarrow> (plant json \<Rightarrow> string) \<Rightarrow> (plant json \<Rightarrow> bool)
     \<Rightarrow> int \<Rightarrow> int \<Rightarrow> raw_plant list option reply \<Rightarrow> plant json world
     \<Rightarrow> js_error + plant json world" where
  "AppContent_useEffect JSON_parse JSON_stringify positive now now' rep w =
     (case AppContent_loadLocal JSON_parse JSON_stringify positive w of
        Inl e \<Rightarrow> Inl e
      | Inr (localPlants, w1) \<Rightarrow> Inr (loadFromAPI JSON_stringify localPlants now now' rep w1))"

text \<open>
  A refresh fails when the awaited call rejects or resolves with \<open>success\<close> unset.
\<close>

fun failed :: "'a reply \<Rightarrow> bool" where
  "failed (Throws e) = True"
| "failed (Response ok body) = (\<not> ok)"

section \<open>Auxiliary facts\<close>

lemma loadPlantsFromLocal_total:
  "\<exists>v b'. loadPlantsFromLocal JSON_parse b = Inr (v, b')"
  by (cases "loadPlantsFromLocal_try JSON_parse b") (simp_all add: loadPlantsFromLocal_def)

lemma savePlantsToLocal_item:
  "localStorage_available b \<Longrightarrow> length (J ps) \<le> localStorage_quota b \<Longrightarrow>
   savePlantsToLocal J ps b = (True, b\<lparr>localStorage_item := Some (J ps)\<rparr>)"
  by (simp add: savePlantsToLocal_def setItem_def)

lemma savePlantsToLocal_rejected:
  "\<not> (localStorage_available b \<and> length (J ps) \<le> localStorage_quota b) \<Longrightarrow>
   savePlantsToLocal J ps b = (False, console_error ''Failed to save to localStorage:'' b)"
  by (auto simp: savePlantsToLocal_def setItem_def)

lemma savePlantsToLocal_accepted_item:
  "localStorage_available b \<Longrightarrow> length (J ps) \<le> localStorage_quota b \<Longrightarrow>
   localStorage_item (snd (savePlantsToLocal J ps b)) = Some (J ps)"
  by (simp add: savePlantsToLocal_item)

lemma savePlantsToLocal_same_item:
  "localStorage_item b = Some (J ps) \<Longrightarrow> localStorage_item (snd (savePlantsToLocal J ps b)) = Some (J ps)"
  by (auto simp: savePlantsToLocal_def setItem_def console_error_def)

lemma savePlantData_missing_fields:
  "\<not> truthy_str (imageName d) \<or> \<not> truthy_str (imageUrl d)
     \<or> \<not> truthy_num (latitude d) \<or> \<not> truthy_num (longitude d) \<Longrightarrow>
   savePlantData d rep a =
     (\<lparr>success = False, data = None, error = Some ''Missing required plant data fields'',
       fromCache = None\<rparr>, a)"
  by (auto simp: savePlantData_def savePlantData_try_def)

lemma savePlantData_accepted:
  "truthy_str (imageName d) \<Longrightarrow> truthy_str (imageUrl d) \<Longrightarrow> truthy_num (latitude d) \<Longrightarrow>
   truthy_num (longitude d) \<Longrightarrow>
   savePlantData d (Response True body) a =
     (\<lparr>success = True, data = map_option savedPlant body, error = None, fromCache = None\<rparr>,
      invalidate (send (POST ''/save-plant-location-data'') a))"
  by (simp add: savePlantData_def savePlantData_try_def Let_def)

lemma fetchUserPlants_fresh:
  "\<not> forceRefresh \<Longrightarrow> cache_plants a = Some ps \<Longrightarrow> cache_timestamp a = Some t \<Longrightarrow> t \<noteq> 0 \<Longrightarrow>
   now - t < 120000 \<Longrightarrow>
   fetchUserPlants forceRefresh now now' rep a =
     (\<lparr>success = True, data = ps, error = None, fromCache = Some True\<rparr>, a)"
  by (simp add: fetchUserPlants_def fetchUserPlants_try_def CACHE_DURATION_def)

lemma fetchUserPlants_network:
  "network (snd (fetchUserPlants forceRefresh now now' rep a)) =
     (if \<not> forceRefresh \<and> cache_plants a \<noteq> None \<and> truthy_time (cache_timestamp a)
         \<and> now - the (cache_timestamp a) < 120000
      then network a else network a @ [POST ''/get-plant-location-data''])"
  by (cases rep)
     (simp_all add: fetchUserPlants_def fetchUserPlants_try_def CACHE_DURATION_def send_def Let_def)

lemma fetchUserPlants_after_invalidate:
  "network (snd (fetchUserPlants forceRefresh now now' rep (invalidate a)))
     = network a @ [POST ''/get-plant-location-data'']"
  by (simp add: fetchUserPlants_network invalidate_def)

lemma fetchUserPlants_failed:
  assumes "failed rep"
    and "network (snd (fetchUserPlants forceRefresh now now' rep a)) \<noteq> network a"
  shows "fetchUserPlants forceRefresh now now' rep a =
     (\<lparr>success = False, data = [],
       error = Some (case rep of Throws e \<Rightarrow> ''API not available''
                               | Response ok body \<Rightarrow> ''Failed to fetch plants''),
       fromCache = None\<rparr>,
      send (POST ''/get-plant-location-data'') a)"
proof -
  from assms(2) have stale: "\<not> (\<not> forceRefresh \<and> cache_plants a \<noteq> None \<and> truthy_time (cache_timestamp a)
         \<and> now - the (cache_timestamp a) < 120000)"
    by (auto simp: fetchUserPlants_network)
  with assms(1) show ?thesis
    by (cases rep) (auto simp: fetchUserPlants_def fetchUserPlants_try_def CACHE_DURATION_def Let_def)
qed

lemma fetchUserPlants_failed_cache:
  assumes "failed rep"
  shows "cache_plants (snd (fetchUserPlants forceRefresh now now' rep a)) = cache_plants a
     \<and> cache_timestamp (snd (fetchUserPlants forceRefresh now now' rep a)) = cache_timestamp a"
  using assms
  by (cases rep) (auto simp: fetchUserPlants_def fetchUserPlants_try_def send_def Let_def)

lemma deletePlantData_cache:
  "snd (deletePlantData i (Throws e) a) = invalidate (send (DELETE (''/delete-plant/'' @ id_to_string i)) a)"
  "snd (deletePlantData i (Response True u) a) = invalidate (send (DELETE (''/delete-plant/'' @ id_to_string i)) a)"
  "snd (deletePlantData i (Response False u) a) = send (DELETE (''/delete-plant/'' @ id_to_string i)) a"
  by (simp_all add: deletePlantData_def deletePlantData_try_def Let_def)

lemma deletePlantData_rejected_general:
  "cache_plants (snd (deletePlantData i (Response False u) a)) = cache_plants a
   \<and> cache_timestamp (snd (deletePlantData i (Response False u) a)) = cache_timestamp a"
  by (simp add: deletePlantData_cache send_def)

lemma uploadSuccess_plants:
  "plants (fst (uploadSuccess J p sb)) = p # plants (fst sb)"
  by (simp add: uploadSuccess_def Let_def)

lemma uploadSuccess_snd:
  "snd (uploadSuccess J p sb) = snd (savePlantsToLocal J (plants (fst (uploadSuccess J p sb))) (snd sb))"
  by (simp add: uploadSuccess_def Let_def)

lemma fold_uploadSuccess_plants:
  "plants (fst (fold (uploadSuccess J) ps sb)) = rev ps @ plants (fst sb)"
  by (induction ps arbitrary: sb) (simp_all add: uploadSuccess_plants)

lemma fetchPlantsSuccess_plants:
  "plants (fst (fetchPlantsSuccess J ps sb)) = ps"
  by (simp add: fetchPlantsSuccess_def Let_def)

lemma fetchPlantsSuccess_snd:
  "snd (fetchPlantsSuccess J ps sb) = snd (savePlantsToLocal J (plants (fst (fetchPlantsSuccess J ps sb))) (snd sb))"
  by (simp add: fetchPlantsSuccess_def Let_def)

lemma deletePlantSuccess_plants:
  "plants (fst (deletePlantSuccess J i sb)) = filter (\<lambda>p. id' p \<noteq> i) (plants (fst sb))"
  by (simp add: deletePlantSuccess_def Let_def)

lemma deletePlantSuccess_fst:
  "fst (deletePlantSuccess J i sb) =
     (fst sb)\<lparr>plants := filter (\<lambda>p. id' p \<noteq> i) (plants (fst sb)), loading := False\<rparr>"
  by (simp add: deletePlantSuccess_def Let_def)

lemma deletePlantSuccess_snd:
  "snd (deletePlantSuccess J i sb) =
     snd (savePlantsToLocal J (plants (fst (deletePlantSuccess J i sb))) (snd sb))"
  by (simp add: deletePlantSuccess_def Let_def)

lemma dispatch_slice: "slice (dispatch r w) = fst (r (slice w, env w))"
  by (simp add: dispatch_def Let_def)

lemma dispatch_env: "env (dispatch r w) = snd (r (slice w, env w))"
  by (simp add: dispatch_def Let_def)

lemma dispatch_api: "api (dispatch r w) = api w"
  by (simp add: dispatch_def Let_def)

lemma savePlantData_console_accepted:
  "truthy_str (imageName d) \<Longrightarrow> truthy_str (imageUrl d) \<Longrightarrow> truthy_num (latitude d) \<Longrightarrow>
   truthy_num (longitude d) \<Longrightarrow>
   savePlantData_console d (Response ok body) a b = b"
  by (simp add: savePlantData_console_def savePlantData_try_def Let_def)

lemma deletePlantData_console_eq:
  "deletePlantData_console i rep a b =
     (case rep of Throws e \<Rightarrow> console_error ''Delete plant error:'' b | Response ok u \<Rightarrow> b)"
  by (cases rep) (simp_all add: deletePlantData_console_def deletePlantData_try_def Let_def)

lemma deletePlantData_console_storage:
  "localStorage_available (deletePlantData_console i rep a b) = localStorage_available b"
  "localStorage_quota (deletePlantData_console i rep a b) = localStorage_quota b"
  "localStorage_item (deletePlantData_console i rep a b) = localStorage_item b"
  by (cases rep; simp add: deletePlantData_console_eq console_error_def)+

lemma deletePlantData_network:
  "network (snd (deletePlantData i rep a)) = network a @ [DELETE (''/delete-plant/'' @ id_to_string i)]"
  by (cases rep)
     (simp_all add: deletePlantData_def deletePlantData_try_def Let_def send_def invalidate_def)

lemma handleDelete_pending_slice:
  "slice (handleDelete_pending True p w) = (slice w)\<lparr>loading := True\<rparr>"
  by (simp add: handleDelete_pending_def Let_def dispatch_slice deletePlantStart_def)

lemma handleDelete_pending_api:
  "api (handleDelete_pending True p w) =
     send (DELETE (''/delete-plant/'' @ id_to_string (id' p))) (api w)"
  by (simp add: handleDelete_pending_def Let_def dispatch_api)

lemma handleDelete_slice:
  "slice (handleDelete J True p rep w) =
     (slice w)\<lparr>plants := filter (\<lambda>q. id' q \<noteq> id' p) (plants (slice w)), loading := False\<rparr>"
  by (simp add: handleDelete_def Let_def dispatch_slice dispatch_env deletePlantSuccess_fst
      deletePlantStart_def)

lemma handleDelete_env:
  "env (handleDelete J True p rep w) =
     snd (savePlantsToLocal J (filter (\<lambda>q. id' q \<noteq> id' p) (plants (slice w)))
            (deletePlantData_console (id' p) rep (api w) (env w)))"
  by (simp add: handleDelete_def Let_def dispatch_slice dispatch_env dispatch_api
      deletePlantSuccess_snd deletePlantSuccess_plants deletePlantStart_def)

lemma handleDelete_api:
  "api (handleDelete J True p rep w) = snd (deletePlantData (id' p) rep (api w))"
  by (simp add: handleDelete_def Let_def dispatch_api)

lemma uploadSingleFile_accepted:
  assumes "fileName \<noteq> []" "truthy_str url" "truthy_num lat" "truthy_num lng"
  shows "uploadSingleFile J fileName url lat lng generatedId isoNow (Response True (Some doc)) w =
     (let finalPlantData =
            \<lparr>imageName = Some fileName, imageUrl = url, latitude = lat, longitude = lng,
             id' = or_else_id (or_else_id (underscore_id doc) (id' doc)) (Id_string generatedId),
             uploadedAt = or_else (uploadedAt doc) (Some isoNow)\<rparr>
      in (Inr finalPlantData,
          dispatch (uploadSuccess J finalPlantData)
            (w\<lparr>api := invalidate (send (POST ''/save-plant-location-data'') (api w))\<rparr>)))"
  using assms
  by (simp add: uploadSingleFile_def uploadSingleFile_try_def savePlantData_accepted Let_def
      savedPlant_def savePlantData_console_accepted)

lemma loadFromAPI_api:
  "api (loadFromAPI J lp now now' rep w) = snd (fetchUserPlants False now now' rep (api w))"
  by (simp add: loadFromAPI_def Let_def dispatch_api)

lemma loadFromAPI_failed:
  assumes "failed rep"
    and "network (api (loadFromAPI J lp now now' rep w)) \<noteq> network (api w)"
  shows "slice (loadFromAPI J lp now now' rep w) =
           (slice w)\<lparr>plants := (if truthy_json lp then lp else JArr []),
                      loading := False, state_error := None\<rparr>"
    and "env (loadFromAPI J lp now now' rep w) =
           snd (savePlantsToLocal J (if truthy_json lp then lp else JArr []) (env w))"
proof -
  from assms(2) have c: "network (snd (fetchUserPlants False now now' rep (api w))) \<noteq> network (api w)"
    by (simp add: loadFromAPI_api)
  note r = fetchUserPlants_failed [OF assms(1) c]
  show "slice (loadFromAPI J lp now now' rep w) =
           (slice w)\<lparr>plants := (if truthy_json lp then lp else JArr []),
                      loading := False, state_error := None\<rparr>"
    by (simp add: loadFromAPI_def Let_def dispatch_api dispatch_slice dispatch_env r
        fetchPlantsSuccess_def fetchPlantsStart_def)
  show "env (loadFromAPI J lp now now' rep w) =
           snd (savePlantsToLocal J (if truthy_json lp then lp else JArr []) (env w))"
    by (simp add: loadFromAPI_def Let_def dispatch_api dispatch_slice dispatch_env r
        fetchPlantsSuccess_def fetchPlantsStart_def)
qed

lemma savePlantsToLocal_twice_item:
  "localStorage_item (snd (savePlantsToLocal J c (snd (savePlantsToLocal J c b))))
     = localStorage_item (snd (savePlantsToLocal J c b))"
  by (auto simp: savePlantsToLocal_def setItem_def console_error_def)

lemma AppContent_loadLocal_world:
  assumes "AppContent_loadLocal P J positive w = Inr (lp, w1)"
    and "isArray lp \<or> \<not> truthy_json lp"
  shows "plants (slice w1) = (if truthy_json lp then lp else JArr [])"
    and "\<exists>b. env w1 = snd (savePlantsToLocal J (if truthy_json lp then lp else JArr []) b)"
    and "api w1 = api w"
proof -
  obtain v b where l: "loadPlantsFromLocal P (env w) = Inr (v, b)"
    using loadPlantsFromLocal_total by blast
  from assms(1) l have v: "v = lp"
    by (auto simp: AppContent_loadLocal_def Let_def split: if_splits)
  have c: "(if truthy_json lp \<and> length_gt0 positive lp then lp else JArr [])
             = (if truthy_json lp then lp else JArr [])"
    using assms(2) by (cases lp) auto
  from assms(1) l v c
  have w1: "w1 = dispatch (fetchPlantsSuccess J (if truthy_json lp then lp else JArr [])) (w\<lparr>env := b\<rparr>)"
    by (auto simp: AppContent_loadLocal_def Let_def split: if_splits)
  show "plants (slice w1) = (if truthy_json lp then lp else JArr [])"
    by (simp add: w1 dispatch_slice fetchPlantsSuccess_plants)
  show "\<exists>b. env w1 = snd (savePlantsToLocal J (if truthy_json lp then lp else JArr []) b)"
    by (rule exI [of _ b]) (simp add: w1 dispatch_env fetchPlantsSuccess_snd fetchPlantsSuccess_plants)
  show "api w1 = api w"
    by (simp add: w1 dispatch_api)
qed

lemma AppContent_useEffect_eq:
  "AppContent_loadLocal P J positive w = Inr (lp, w1) \<Longrightarrow>
   AppContent_useEffect P J positive now now' rep w = Inr (loadFromAPI J lp now now' rep w1)"
  by (simp add: AppContent_useEffect_def)

section \<open>Properties of the synchronisation layer\<close>

text \<open>
  Claim C1 says that a refresh whose backend call fails leaves the collection
  and the mirror unchanged and hands the prior data back to the caller together
  with a soft-failure indicator. With one record in the cache, the slice and the
  mirror, and a network error 130 s after the last fetch, \<open>fetchUserPlants\<close>
  answers \<open>success: false\<close> with an empty \<open>data\<close>, not the record; and
  \<open>loadFromAPI\<close> leaves the slice with the record and with \<open>error\<close> still
  \<open>null\<close>, so the data that stays visible carries no indicator. And when the
  slice and the mirror hold a record more than the snapshot that was read from
  the mirror earlier, the failed refresh dispatches the snapshot and the newer
  record is gone from the collection.
\<close>

theorem refresh_failure_returns_empty_data:
  "data (fst (fetchUserPlants False 1700000130000 1700000140000 (Throws NetworkError)
       \<lparr>cache_plants =
          Some [\<lparr>imageName = Some ''rose.jpg'', imageUrl = Some ''https://img.example/rose.jpg'',
                 latitude = Some 15, longitude = Some 79, id' = Id_string ''p1'',
                 uploadedAt = Some ''2024-01-01T00:00:00Z''\<rparr>],
        cache_timestamp = Some 1700000000000, network = []\<rparr>))
     \<noteq> [\<lparr>imageName = Some ''rose.jpg'', imageUrl = Some ''https://img.example/rose.jpg'',
           latitude = Some 15, longitude = Some 79, id' = Id_string ''p1'',
           uploadedAt = Some ''2024-01-01T00:00:00Z''\<rparr>]
   \<and> fst (fetchUserPlants False 1700000130000 1700000140000 (Throws NetworkError)
       \<lparr>cache_plants =
          Some [\<lparr>imageName = Some ''rose.jpg'', imageUrl = Some ''https://img.example/rose.jpg'',
                 latitude = Some 15, longitude = Some 79, id' = Id_string ''p1'',
                 uploadedAt = Some ''2024-01-01T00:00:00Z''\<rparr>],
        cache_timestamp = Some 1700000000000, network = []\<rparr>)
     = \<lparr>success = False, data = [], error = Some ''API not available'', fromCache = None\<rparr>
   \<and> slice (loadFromAPI
         (case_json ''null'' (case_bool ''true'' ''false'') (fst \<circ> Pair ''0'') id
            (concat \<circ> map (id_to_string \<circ> id')) (fst \<circ> Pair ''{}''))
       (JArr [\<lparr>imageName = Some ''rose.jpg'', imageUrl = Some ''https://img.example/rose.jpg'',
          latitude = Some 15, longitude = Some 79, id' = Id_string ''p1'',
          uploadedAt = Some ''2024-01-01T00:00:00Z''\<rparr>])
       1700000130000 1700000140000 (Throws NetworkError)
       \<lparr>slice = initialState_of
          (JArr [\<lparr>imageName = Some ''rose.jpg'', imageUrl = Some ''https://img.example/rose.jpg'',
                   latitude = Some 15, longitude = Some 79, id' = Id_string ''p1'',
                   uploadedAt = Some ''2024-01-01T00:00:00Z''\<rparr>]),
        env = \<lparr>localStorage_available = True, localStorage_quota = 5000000,
               localStorage_item = Some ''p1'', console = []\<rparr>,
        api = \<lparr>cache_plants =
                 Some [\<lparr>imageName = Some ''rose.jpg'', imageUrl = Some ''https://img.example/rose.jpg'',
                        latitude = Some 15, longitude = Some 79, id' = Id_string ''p1'',
                        uploadedAt = Some ''2024-01-01T00:00:00Z''\<rparr>],
               cache_timestamp = Some 1700000000000, network = []\<rparr>\<rparr>)
     = (initialState_of
         (JArr [\<lparr>imageName = Some ''rose.jpg'', imageUrl = Some ''https://img.example/rose.jpg'',
                  latitude = Some 15, longitude = Some 79, id' = Id_string ''p1'',
                  uploadedAt = Some ''2024-01-01T00:00:00Z''\<rparr>]))
         \<lparr>state_error := None\<rparr>
   \<and> plants (slice (loadFromAPI
         (case_json ''null'' (case_bool ''true'' ''false'') (fst \<circ> Pair ''0'') id
            (concat \<circ> map (id_to_string \<circ> id')) (fst \<circ> Pair ''{}''))
       (JArr [\<lparr>imageName = Some ''rose.jpg'', imageUrl = Some ''https://img.example/rose.jpg'',
          latitude = Some 15, longitude = Some 79, id' = Id_string ''p1'',
          uploadedAt = Some ''2024-01-01T00:00:00Z''\<rparr>])
       1700000130000 1700000140000 (Throws NetworkError)
       \<lparr>slice = initialState_of
          (JArr [\<lparr>imageName = Some ''lily.jpg'', imageUrl = Some ''https://img.example/lily.jpg'',
                   latitude = Some 16, longitude = Some 80, id' = Id_string ''p2'',
                   uploadedAt = Some ''2024-01-02T00:00:00Z''\<rparr>,
                 \<lparr>imageName = Some ''rose.jpg'', imageUrl = Some ''https://img.example/rose.jpg'',
                   latitude = Some 15, longitude = Some 79, id' = Id_string ''p1'',
                   uploadedAt = Some ''2024-01-01T00:00:00Z''\<rparr>]),
        env = \<lparr>localStorage_available = True, localStorage_quota = 5000000,
               localStorage_item = Some ''p2p1'', console = []\<rparr>,
        api = \<lparr>cache_plants = None, cache_timestamp = None, network = []\<rparr>\<rparr>))
     = JArr [\<lparr>imageName = Some ''rose.jpg'', imageUrl = Some ''https://img.example/rose.jpg'',
              latitude = Some 15, longitude = Some 79, id' = Id_string ''p1'',
              uploadedAt = Some ''2024-01-01T00:00:00Z''\<rparr>]"
  by (simp add: fetchUserPlants_def fetchUserPlants_try_def CACHE_DURATION_def send_def
      loadFromAPI_def dispatch_def fetchPlantsStart_def fetchPlantsSuccess_def Let_def
      initialState_of_def)

text \<open>
  Claim C1, as the code has it. When the backend fails during a refresh (the
  call rejects, or resolves with \<open>success\<close> unset):
  \<^item> \<open>fetchUserPlants\<close> answers \<open>success: false\<close> with an error message and an
    empty \<open>data\<close>, and leaves the cache as it was;
  \<^item> the reducer \<open>fetchPlantsFailure\<close>, where it is dispatched, keeps the
    collection and the mirror and records the error;
  \<^item> \<open>loadFromAPI\<close> dispatches \<open>localPlants || []\<close>: whatever the collection
    held, it now holds that snapshot, \<open>savePlantsToLocal\<close> is called with it,
    \<open>loading\<close> is reset and \<open>error\<close> is \<open>null\<close>;
  \<^item> in the effect of \<open>AppContent\<close>, when what was read from the mirror is an
    array (an absent, empty or unparseable item reads as \<open>[]\<close>) or falsy, the
    collection and the mirror item after the failed refresh are the ones that
    the effect had set before it started the request.
\<close>

theorem refresh_failure_dispatches_snapshot:
  assumes "failed rep"
  shows
    "(network (snd (fetchUserPlants forceRefresh now now' rep a)) \<noteq> network a \<longrightarrow>
        fst (fetchUserPlants forceRefresh now now' rep a) =
          \<lparr>success = False, data = [],
           error = Some (case rep of Throws e \<Rightarrow> ''API not available''
                                   | Response ok body \<Rightarrow> ''Failed to fetch plants''),
           fromCache = None\<rparr>)
     \<and> cache_plants (snd (fetchUserPlants forceRefresh now now' rep a)) = cache_plants a
     \<and> cache_timestamp (snd (fetchUserPlants forceRefresh now now' rep a)) = cache_timestamp a
     \<and> fetchPlantsFailure msg sb = ((fst sb)\<lparr>loading := False, state_error := Some msg\<rparr>, snd sb)
     \<and> (network (api (loadFromAPI J localPlants now now' rep w)) \<noteq> network (api w) \<longrightarrow>
          slice (loadFromAPI J localPlants now now' rep w) =
            (slice w)\<lparr>plants := (if truthy_json localPlants then localPlants else JArr []),
                       loading := False, state_error := None\<rparr>
          \<and> env (loadFromAPI J localPlants now now' rep w) =
              snd (savePlantsToLocal J (if truthy_json localPlants then localPlants else JArr [])
                     (env w)))
     \<and> (\<forall>lp w1. AppContent_loadLocal JSON_parse J positive w = Inr (lp, w1)
            \<and> (isArray lp \<or> \<not> truthy_json lp)
            \<and> network (api (loadFromAPI J lp now now' rep w1)) \<noteq> network (api w1)
          \<longrightarrow> AppContent_useEffect JSON_parse J positive now now' rep w
                = Inr (loadFromAPI J lp now now' rep w1)
              \<and> plants (slice (loadFromAPI J lp now now' rep w1)) = plants (slice w1)
              \<and> localStorage_item (env (loadFromAPI J lp now now' rep w1))
                  = localStorage_item (env w1))"
proof (intro conjI impI allI)
  assume c: "network (snd (fetchUserPlants forceRefresh now now' rep a)) \<noteq> network a"
  show "fst (fetchUserPlants forceRefresh now now' rep a) =
          \<lparr>success = False, data = [],
           error = Some (case rep of Throws e \<Rightarrow> ''API not available''
                                   | Response ok body \<Rightarrow> ''Failed to fetch plants''),
           fromCache = None\<rparr>"
    by (simp add: fetchUserPlants_failed [OF assms c])
next
  show "cache_plants (snd (fetchUserPlants forceRefresh now now' rep a)) = cache_plants a"
    and "cache_timestamp (snd (fetchUserPlants forceRefresh now now' rep a)) = cache_timestamp a"
    using fetchUserPlants_failed_cache [OF assms] by simp_all
next
  show "fetchPlantsFailure msg sb = ((fst sb)\<lparr>loading := False, state_error := Some msg\<rparr>, snd sb)"
    by (simp add: fetchPlantsFailure_def)
next
  assume c: "network (api (loadFromAPI J localPlants now now' rep w)) \<noteq> network (api w)"
  show "slice (loadFromAPI J localPlants now now' rep w) =
            (slice w)\<lparr>plants := (if truthy_json localPlants then localPlants else JArr []),
                       loading := False, state_error := None\<rparr>"
    by (rule loadFromAPI_failed(1) [OF assms c])
  show "env (loadFromAPI J localPlants now now' rep w) =
              snd (savePlantsToLocal J (if truthy_json localPlants then localPlants else JArr [])
                     (env w))"
    by (rule loadFromAPI_failed(2) [OF assms c])
next
  fix lp w1
  assume h: "AppContent_loadLocal JSON_parse J positive w = Inr (lp, w1)
            \<and> (isArray lp \<or> \<not> truthy_json lp)
            \<and> network (api (loadFromAPI J lp now now' rep w1)) \<noteq> network (api w1)"
  then have l: "AppContent_loadLocal JSON_parse J positive w = Inr (lp, w1)"
    and g: "isArray lp \<or> \<not> truthy_json lp"
    and c: "network (api (loadFromAPI J lp now now' rep w1)) \<noteq> network (api w1)"
    by simp_all
  show "AppContent_useEffect JSON_parse J positive now now' rep w = Inr (loadFromAPI J lp now now' rep w1)"
    by (rule AppContent_useEffect_eq [OF l])
  show "plants (slice (loadFromAPI J lp now now' rep w1)) = plants (slice w1)"
    by (simp add: loadFromAPI_failed(1) [OF assms c] AppContent_loadLocal_world(1) [OF l g])
  from AppContent_loadLocal_world(2) [OF l g]
  obtain b where b: "env w1 = snd (savePlantsToLocal J (if truthy_json lp then lp else JArr []) b)"
    by blast
  show "localStorage_item (env (loadFromAPI J lp now now' rep w1)) = localStorage_item (env w1)"
    unfolding loadFromAPI_failed(2) [OF assms c] b
    by (rule savePlantsToLocal_twice_item)
qed

text \<open>
  A mirror holding one record, the same record cached 130 s ago, and a network
  error: the request is sent, the result says \<open>API not available\<close> with no
  data, the cache keeps the record, and after the whole effect the collection is
  the record read from the mirror, with no error, and the mirror item is the
  same.
\<close>

theorem refresh_failure_dispatches_snapshot_witness:
  "(let p = \<lparr>imageName = Some ''rose.jpg'', imageUrl = Some ''https://img.example/rose.jpg'',
             latitude = Some 15, longitude = Some 79, id' = Id_string ''p1'',
             uploadedAt = Some ''2024-01-01T00:00:00Z''\<rparr>;
        JSON_stringify = (\<lambda>v. case v of JArr ps \<Rightarrow> concat (map (\<lambda>q. id_to_string (id' q)) ps)
                                     | _ \<Rightarrow> ''other'');
        JSON_parse = (\<lambda>s. if s = ''p1'' then Inr (JArr [p]) else Inl SyntaxError);
        a = \<lparr>cache_plants = Some [p], cache_timestamp = Some 1700000000000, network = []\<rparr>;
        w = \<lparr>slice = initialState_of (JArr []),
             env = \<lparr>localStorage_available = True, localStorage_quota = 5000000,
                    localStorage_item = Some ''p1'', console = []\<rparr>,
             api = a\<rparr>;
        r = fetchUserPlants False 1700000130000 1700000140000 (Throws NetworkError) a
    in failed (Throws NetworkError :: raw_plant list option reply)
       \<and> network (snd r) = [POST ''/get-plant-location-data'']
       \<and> fst r = \<lparr>success = False, data = [], error = Some ''API not available'',
                   fromCache = None\<rparr>
       \<and> cache_plants (snd r) = Some [p] \<and> cache_timestamp (snd r) = Some 1700000000000
       \<and> (\<exists>w'. AppContent_useEffect JSON_parse JSON_stringify (\<lambda>v. False)
                   1700000130000 1700000140000 (Throws NetworkError) w = Inr w'
              \<and> plants (slice w') = JArr [p]
              \<and> state_error (slice w') = None
              \<and> localStorage_item (env w') = Some ''p1''))"
proof -
  let ?p = "\<lparr>imageName = Some ''rose.jpg'', imageUrl = Some ''https://img.example/rose.jpg'',
             latitude = Some (15::real), longitude = Some (79::real), id' = Id_string ''p1'',
             uploadedAt = Some ''2024-01-01T00:00:00Z''\<rparr>"
  let ?J = "\<lambda>v::plant json. case v of JArr ps \<Rightarrow> concat (map (\<lambda>q. id_to_string (id' q)) ps)
                                     | _ \<Rightarrow> ''other''"
  let ?P = "\<lambda>s. if s = ''p1'' then Inr (JArr [?p]) else Inl SyntaxError"
  let ?a = "\<lparr>cache_plants = Some [?p], cache_timestamp = Some 1700000000000, network = []\<rparr>"
  let ?b = "\<lparr>localStorage_available = True, localStorage_quota = 5000000,
             localStorage_item = Some ''p1'', console = []\<rparr>"
  let ?w = "\<lparr>slice = initialState_of (JArr []), env = ?b, api = ?a\<rparr>"
  let ?w1 = "\<lparr>slice = initialState_of (JArr [?p]), env = ?b, api = ?a\<rparr>"
  let ?rep = "Throws NetworkError :: raw_plant list option reply"
  let ?w' = "loadFromAPI ?J (JArr [?p]) 1700000130000 1700000140000 ?rep ?w1"
  have f: "failed ?rep" by simp
  have n: "network (snd (fetchUserPlants False 1700000130000 1700000140000 ?rep ?a))
             = [POST ''/get-plant-location-data'']"
    by (simp add: fetchUserPlants_network)
  have l: "AppContent_loadLocal ?P ?J (\<lambda>v. False) ?w = Inr (JArr [?p], ?w1)"
    by (simp add: AppContent_loadLocal_def loadPlantsFromLocal_def loadPlantsFromLocal_try_def
        getItem_def Let_def dispatch_def fetchPlantsSuccess_def savePlantsToLocal_def setItem_def
        initialState_of_def)
  have n': "network (api ?w') = [POST ''/get-plant-location-data'']"
    by (simp add: loadFromAPI_api fetchUserPlants_network)
  note t = refresh_failure_dispatches_snapshot [OF f, where forceRefresh = False
      and now = 1700000130000 and now' = 1700000140000 and a = ?a and J = ?J
      and msg = "''API unavailable''" and sb = "(slice ?w, env ?w)"
      and localPlants = "JArr [?p]" and JSON_parse = ?P and positive = "\<lambda>v. False" and w = ?w]
  note t1 = refresh_failure_dispatches_snapshot [OF f, where forceRefresh = False
      and now = 1700000130000 and now' = 1700000140000 and a = ?a and J = ?J
      and msg = "''API unavailable''" and sb = "(slice ?w, env ?w)"
      and localPlants = "JArr [?p]" and JSON_parse = ?P and positive = "\<lambda>v. False" and w = ?w1]
  from t [THEN conjunct1] n
  have r: "fst (fetchUserPlants False 1700000130000 1700000140000 ?rep ?a)
      = \<lparr>success = False, data = [], error = Some ''API not available'', fromCache = None\<rparr>"
    by simp
  from t [THEN conjunct2, THEN conjunct1] t [THEN conjunct2, THEN conjunct2, THEN conjunct1]
  have c: "cache_plants (snd (fetchUserPlants False 1700000130000 1700000140000 ?rep ?a)) = Some [?p]"
      "cache_timestamp (snd (fetchUserPlants False 1700000130000 1700000140000 ?rep ?a))
         = Some 1700000000000"
    by simp_all
  from t1 [THEN conjunct2, THEN conjunct2, THEN conjunct2, THEN conjunct2, THEN conjunct1] n'
  have s: "slice ?w' = (slice ?w1)\<lparr>plants := JArr [?p], loading := False, state_error := None\<rparr>"
    by simp
  from t [THEN conjunct2, THEN conjunct2, THEN conjunct2, THEN conjunct2, THEN conjunct2]
  have "AppContent_loadLocal ?P ?J (\<lambda>v. False) ?w = Inr (JArr [?p], ?w1)
            \<and> (isArray (JArr [?p]) \<or> \<not> truthy_json (JArr [?p]))
            \<and> network (api ?w') \<noteq> network (api ?w1)
          \<longrightarrow> AppContent_useEffect ?P ?J (\<lambda>v. False) 1700000130000 1700000140000 ?rep ?w = Inr ?w'
              \<and> plants (slice ?w') = plants (slice ?w1)
              \<and> localStorage_item (env ?w') = localStorage_item (env ?w1)"
    by blast
  with l n' have e: "AppContent_useEffect ?P ?J (\<lambda>v. False) 1700000130000 1700000140000 ?rep ?w = Inr ?w'"
    and pl: "plants (slice ?w') = JArr [?p]"
    and it: "localStorage_item (env ?w') = Some ''p1''"
    by (simp_all add: initialState_of_def)
  from s have er: "state_error (slice ?w') = None"
    by simp
  from e pl it er have "\<exists>w'. AppContent_useEffect ?P ?J (\<lambda>v. False)
                   1700000130000 1700000140000 ?rep ?w = Inr w'
              \<and> plants (slice w') = JArr [?p]
              \<and> state_error (slice w') = None
              \<and> localStorage_item (env w') = Some ''p1''"
    by blast
  with f n r c show ?thesis
    unfolding Let_def by simp
qed

text \<open>
  Claim C2. \<open>fetchUserPlants\<close> posts to the backend exactly when \<open>forceRefresh\<close>
  is set, or the cache holds no plants or no timestamp (a timestamp of \<open>0\<close> is
  falsy and counts as none), or the cache age \<open>now - timestamp\<close> is at least
  \<open>120000\<close> ms. Otherwise no request is sent and the cached plants are returned
  with \<open>fromCache: true\<close>, the cache left as it was.
\<close>

theorem fetchUserPlants_contacts_remote_iff:
  "(network (snd (fetchUserPlants forceRefresh now now' rep a))
      = network a @ [POST ''/get-plant-location-data'']
    \<longleftrightarrow> forceRefresh \<or> cache_plants a = None \<or> cache_timestamp a = None
         \<or> cache_timestamp a = Some 0
         \<or> (\<exists>t. cache_timestamp a = Some t \<and> now - t \<ge> 120000))
   \<and> (network (snd (fetchUserPlants forceRefresh now now' rep a)) = network a
    \<longleftrightarrow> \<not> forceRefresh \<and> (\<exists>ps t. cache_plants a = Some ps \<and> cache_timestamp a = Some t
           \<and> t \<noteq> 0 \<and> now - t < 120000
           \<and> fetchUserPlants forceRefresh now now' rep a =
               (\<lparr>success = True, data = ps, error = None, fromCache = Some True\<rparr>, a)))"
proof -
  let ?fresh = "\<not> forceRefresh \<and> cache_plants a \<noteq> None \<and> truthy_time (cache_timestamp a)
         \<and> now - the (cache_timestamp a) < 120000"
  have stale: "\<not> ?fresh \<longleftrightarrow> forceRefresh \<or> cache_plants a = None \<or> cache_timestamp a = None
         \<or> cache_timestamp a = Some 0
         \<or> (\<exists>t. cache_timestamp a = Some t \<and> now - t \<ge> 120000)"
    by (cases "cache_timestamp a") auto
  have fresh: "?fresh \<longleftrightarrow> \<not> forceRefresh \<and> (\<exists>ps t. cache_plants a = Some ps \<and> cache_timestamp a = Some t
           \<and> t \<noteq> 0 \<and> now - t < 120000
           \<and> fetchUserPlants forceRefresh now now' rep a =
               (\<lparr>success = True, data = ps, error = None, fromCache = Some True\<rparr>, a))"
    by (cases "cache_timestamp a"; cases "cache_plants a") (auto simp: fetchUserPlants_fresh)
  show ?thesis
    unfolding stale [symmetric] fresh [symmetric]
    by (simp add: fetchUserPlants_network)
qed

text \<open>
  Three cached records: 30 s and 119.999 s after the fetch no request is sent,
  at exactly 120 s one is, and with \<open>forceRefresh\<close> one is sent at 30 s.
\<close>

theorem fetchUserPlants_contacts_remote_iff_witness:
  "(let p = (\<lambda>i. \<lparr>imageName = Some ''rose.jpg'', imageUrl = Some ''https://img.example/rose.jpg'',
                   latitude = Some 15, longitude = Some 79, id' = Id_string i,
                   uploadedAt = Some ''2024-01-01T00:00:00Z''\<rparr>);
        a = \<lparr>cache_plants = Some [p ''p1'', p ''p2'', p ''p3''],
             cache_timestamp = Some 1700000000000, network = []\<rparr>
    in network (snd (fetchUserPlants False 1700000030000 1700000030500 (Response True (Some [])) a)) = []
       \<and> network (snd (fetchUserPlants False 1700000119999 1700000120500 (Response True (Some [])) a)) = []
       \<and> network (snd (fetchUserPlants False 1700000120000 1700000120500 (Response True (Some [])) a))
            = [POST ''/get-plant-location-data'']
       \<and> network (snd (fetchUserPlants True 1700000030000 1700000030500 (Response True (Some [])) a))
            = [POST ''/get-plant-location-data''])"
proof -
  let ?p = "\<lambda>i. \<lparr>imageName = Some ''rose.jpg'', imageUrl = Some ''https://img.example/rose.jpg'',
                   latitude = Some (15::real), longitude = Some (79::real), id' = Id_string i,
                   uploadedAt = Some ''2024-01-01T00:00:00Z''\<rparr>"
  let ?a = "\<lparr>cache_plants = Some [?p ''p1'', ?p ''p2'', ?p ''p3''],
             cache_timestamp = Some 1700000000000, network = []\<rparr>"
  note iff = fetchUserPlants_contacts_remote_iff [where a = ?a and rep = "Response True (Some [])"]
  have "network (snd (fetchUserPlants False 1700000030000 1700000030500 (Response True (Some [])) ?a)) = []"
    using iff [of False 1700000030000 1700000030500] by (simp add: fetchUserPlants_fresh)
  moreover have "network (snd (fetchUserPlants False 1700000119999 1700000120500 (Response True (Some [])) ?a)) = []"
    using iff [of False 1700000119999 1700000120500] by (simp add: fetchUserPlants_fresh)
  moreover have "network (snd (fetchUserPlants False 1700000120000 1700000120500 (Response True (Some [])) ?a))
            = [POST ''/get-plant-location-data'']"
    using iff [of False 1700000120000 1700000120500] by simp
  moreover have "network (snd (fetchUserPlants True 1700000030000 1700000030500 (Response True (Some [])) ?a))
            = [POST ''/get-plant-location-data'']"
    using iff [of True 1700000030000 1700000030500] by simp
  ultimately show ?thesis by (simp add: Let_def)
qed

text \<open>
  Claim C3. When the draft passes the validation and the backend answers with
  \<open>success\<close> set and a document, \<open>uploadSingleFile\<close> puts the new record in front
  of the collection, with the id the backend assigned (the locally generated
  one only if the backend sent none); the mirror is written with the new
  collection; the cache is emptied, so that the next \<open>fetchUserPlants\<close> posts
  to the backend whatever the clock says. A run of \<open>uploadSuccess\<close> dispatches
  leaves the records in front of the earlier ones, the latest first.
\<close>

theorem uploadSingleFile_inserts_at_front:
  assumes "fileName \<noteq> []" "truthy_str url" "truthy_num lat" "truthy_num lng"
  shows
    "(let r = uploadSingleFile J fileName url lat lng generatedId isoNow (Response True (Some doc)) w;
          remoteId = or_else_id (underscore_id doc) (id' doc)
      in \<exists>finalPlantData.
           fst r = Inr finalPlantData
           \<and> plants (slice (snd r)) = finalPlantData # plants (slice w)
           \<and> id' finalPlantData = (if truthy_id remoteId then remoteId else Id_string generatedId)
           \<and> env (snd r) = snd (savePlantsToLocal J (plants (slice (snd r))) (env w))
           \<and> (localStorage_available (env w)
                 \<and> length (J (plants (slice (snd r)))) \<le> localStorage_quota (env w)
               \<longrightarrow> localStorage_item (env (snd r)) = Some (J (plants (slice (snd r)))))
           \<and> cache_plants (api (snd r)) = None \<and> cache_timestamp (api (snd r)) = None
           \<and> (\<forall>now now' rep. network (snd (fetchUserPlants False now now' rep (api (snd r))))
                 = network (api (snd r)) @ [POST ''/get-plant-location-data'']))
     \<and> plants (fst (fold (uploadSuccess J) ps sb)) = rev ps @ plants (fst sb)"
proof -
  define r where "r = uploadSingleFile J fileName url lat lng generatedId isoNow (Response True (Some doc)) w"
  define remoteId where "remoteId = or_else_id (underscore_id doc) (id' doc)"
  let ?f = "\<lparr>imageName = Some fileName, imageUrl = url, latitude = lat, longitude = lng,
             id' = or_else_id remoteId (Id_string generatedId),
             uploadedAt = or_else (uploadedAt doc) (Some isoNow)\<rparr>"
  let ?a = "send (POST ''/save-plant-location-data'') (api w)"
  have r: "r = (Inr ?f, dispatch (uploadSuccess J ?f) (w\<lparr>api := invalidate ?a\<rparr>))"
    using assms by (simp add: r_def remoteId_def uploadSingleFile_accepted Let_def)
  have pl: "plants (slice (snd r)) = ?f # plants (slice w)"
    by (simp add: r dispatch_slice uploadSuccess_plants)
  have en: "env (snd r) = snd (savePlantsToLocal J (plants (slice (snd r))) (env w))"
    by (simp add: pl) (simp add: r dispatch_env uploadSuccess_snd uploadSuccess_plants)
  have ap: "api (snd r) = invalidate ?a"
    by (simp add: r dispatch_api)
  have net: "\<forall>now now' rep. network (snd (fetchUserPlants False now now' rep (api (snd r))))
            = network (api (snd r)) @ [POST ''/get-plant-location-data'']"
    unfolding ap by (simp add: fetchUserPlants_after_invalidate) (simp add: invalidate_def)
  have "fst r = Inr ?f" by (simp add: r)
  moreover have "id' ?f = (if truthy_id remoteId then remoteId else Id_string generatedId)"
    by (simp add: or_else_id_def)
  moreover have "localStorage_available (env w)
            \<and> length (J (plants (slice (snd r)))) \<le> localStorage_quota (env w)
          \<longrightarrow> localStorage_item (env (snd r)) = Some (J (plants (slice (snd r))))"
    unfolding en by (simp add: savePlantsToLocal_accepted_item)
  moreover have "cache_plants (api (snd r)) = None \<and> cache_timestamp (api (snd r)) = None"
    by (simp add: ap invalidate_def)
  ultimately have "\<exists>finalPlantData.
      fst r = Inr finalPlantData
      \<and> plants (slice (snd r)) = finalPlantData # plants (slice w)
      \<and> id' finalPlantData = (if truthy_id remoteId then remoteId else Id_string generatedId)
      \<and> env (snd r) = snd (savePlantsToLocal J (plants (slice (snd r))) (env w))
      \<and> (localStorage_available (env w)
            \<and> length (J (plants (slice (snd r)))) \<le> localStorage_quota (env w)
          \<longrightarrow> localStorage_item (env (snd r)) = Some (J (plants (slice (snd r)))))
      \<and> cache_plants (api (snd r)) = None \<and> cache_timestamp (api (snd r)) = None
      \<and> (\<forall>now now' rep. network (snd (fetchUserPlants False now now' rep (api (snd r))))
            = network (api (snd r)) @ [POST ''/get-plant-location-data''])"
    using pl en net by blast
  then show ?thesis
    unfolding Let_def r_def remoteId_def
    by (simp only: fold_uploadSuccess_plants simp_thms)
qed

text \<open>
  A draft \<open>a.jpg\<close> at latitude 10, longitude 20, a backend that answers with id
  \<open>x1\<close>, and one older record \<open>p1\<close>: the ids read \<open>x1\<close>, \<open>p1\<close>, the mirror is
  rewritten, and a refresh 30 s after the last fetch posts again.
\<close>

theorem uploadSingleFile_inserts_at_front_witness:
  "(let J = (\<lambda>ps. concat (map (\<lambda>q. id_to_string (id' q)) ps));
        old = \<lparr>imageName = Some ''rose.jpg'', imageUrl = Some ''https://img.example/rose.jpg'',
               latitude = Some 15, longitude = Some 79, id' = Id_string ''p1'',
               uploadedAt = Some ''2023-12-31T00:00:00Z''\<rparr>;
        doc = \<lparr>imageName = Some ''a.jpg'', imageUrl = Some ''https://img.example/a.jpg'',
               latitude = Some 10, longitude = Some 20, id' = Id_string ''x1'',
               uploadedAt = Some ''2024-01-01T00:00:00Z'',
               underscore_id = Id_undefined, createdAt = None\<rparr>;
        w = \<lparr>slice = initialState\<lparr>plants := [old]\<rparr>,
             env = \<lparr>localStorage_available = True, localStorage_quota = 5000000,
                    localStorage_item = Some ''p1'', console = []\<rparr>,
             api = \<lparr>cache_plants = Some [old], cache_timestamp = Some 1700000000000,
                    network = []\<rparr>\<rparr>;
        r = uploadSingleFile J ''a.jpg'' (Some ''https://img.example/a.jpg'') (Some 10) (Some 20)
              ''local-id'' ''2024-01-02T00:00:00Z'' (Response True (Some doc)) w
    in map id' (plants (slice (snd r))) = [Id_string ''x1'', Id_string ''p1'']
       \<and> localStorage_item (env (snd r)) = Some ''x1p1''
       \<and> cache_plants (api (snd r)) = None \<and> cache_timestamp (api (snd r)) = None
       \<and> network (snd (fetchUserPlants False 1700000030000 1700000030500 (Response True None)
                          (api (snd r))))
           = [POST ''/save-plant-location-data'', POST ''/get-plant-location-data''])"
proof -
  let ?J = "\<lambda>ps::plant list. concat (map (\<lambda>q. id_to_string (id' q)) ps)"
  let ?old = "\<lparr>imageName = Some ''rose.jpg'', imageUrl = Some ''https://img.example/rose.jpg'',
               latitude = Some (15::real), longitude = Some (79::real), id' = Id_string ''p1'',
               uploadedAt = Some ''2023-12-31T00:00:00Z''\<rparr>"
  let ?doc = "\<lparr>imageName = Some ''a.jpg'', imageUrl = Some ''https://img.example/a.jpg'',
               latitude = Some (10::real), longitude = Some (20::real), id' = Id_string ''x1'',
               uploadedAt = Some ''2024-01-01T00:00:00Z'',
               underscore_id = Id_undefined, createdAt = None\<rparr>"
  let ?w = "\<lparr>slice = initialState\<lparr>plants := [?old]\<rparr>,
             env = \<lparr>localStorage_available = True, localStorage_quota = 5000000,
                    localStorage_item = Some ''p1'', console = []\<rparr>,
             api = \<lparr>cache_plants = Some [?old], cache_timestamp = Some 1700000000000,
                    network = []\<rparr>\<rparr>"
  let ?r = "uploadSingleFile ?J ''a.jpg'' (Some ''https://img.example/a.jpg'') (Some 10) (Some 20)
              ''local-id'' ''2024-01-02T00:00:00Z'' (Response True (Some ?doc)) ?w"
  have *: "''a.jpg'' \<noteq> []" "truthy_str (Some ''https://img.example/a.jpg'')"
    "truthy_num (Some 10)" "truthy_num (Some 20)"
    by simp_all
  from uploadSingleFile_inserts_at_front [OF *, of ?J "''local-id''" "''2024-01-02T00:00:00Z''" ?doc ?w "[]"]
  obtain f where f: "fst ?r = Inr f" "plants (slice (snd ?r)) = [f, ?old]" "id' f = Id_string ''x1''"
      "localStorage_item (env (snd ?r)) = Some (?J (plants (slice (snd ?r))))"
      "cache_plants (api (snd ?r)) = None" "cache_timestamp (api (snd ?r)) = None"
      "\<forall>now now' rep. network (snd (fetchUserPlants False now now' rep (api (snd ?r))))
                 = network (api (snd ?r)) @ [POST ''/get-plant-location-data'']"
    unfolding Let_def by (auto simp: or_else_id_def)
  have n: "network (api (snd ?r)) = [POST ''/save-plant-location-data'']"
    by (simp add: uploadSingleFile_accepted Let_def dispatch_api invalidate_def send_def)
  from f n show ?thesis
    unfolding Let_def by simp
qed

text \<open>
  Claim C4. \<open>deletePlantData\<close> should empty the cache on every attempt. It does
  when the call resolves with \<open>success\<close> set and when the call rejects, but not
  when the call resolves with \<open>success\<close> unset: there the cached plants and their
  timestamp stay, and a \<open>fetchUserPlants\<close> 30 s later still serves the record
  from the cache without asking the backend.
\<close>

theorem deletePlantData_rejected_keeps_cache:
  "(let p = \<lparr>imageName = Some ''rose.jpg'', imageUrl = Some ''https://img.example/rose.jpg'',
             latitude = Some 15, longitude = Some 79, id' = Id_string ''p1'',
             uploadedAt = Some ''2024-01-01T00:00:00Z''\<rparr>;
        a = \<lparr>cache_plants = Some [p], cache_timestamp = Some 1700000000000, network = []\<rparr>;
        r = deletePlantData (Id_string ''p1'') (Response False ()) a
    in fst r = \<lparr>success = False, data = None, error = Some ''Failed to delete plant'',
                 fromCache = None\<rparr>
       \<and> cache_plants (snd r) = Some [p]
       \<and> cache_timestamp (snd r) = Some 1700000000000
       \<and> cache_plants (snd (deletePlantData (Id_string ''p1'') (Response True ()) a)) = None
       \<and> cache_plants (snd (deletePlantData (Id_string ''p1'') (Throws NetworkError) a)) = None
       \<and> fst (fetchUserPlants False 1700000030000 1700000030500 (Throws NetworkError) (snd r))
           = \<lparr>success = True, data = [p], error = None, fromCache = Some True\<rparr>)"
  by (simp add: Let_def deletePlantData_def deletePlantData_try_def send_def invalidate_def
      fetchUserPlants_def fetchUserPlants_try_def CACHE_DURATION_def)

text \<open>
  Claim C5 says that a confirmed delete removes the record at once. With two
  records and the delete of \<open>p1\<close> confirmed, the world in which the request has
  been sent and not yet answered still holds both records; \<open>p1\<close> is gone only
  in the world after the answer.
\<close>

theorem handleDelete_pending_keeps_record:
  "plants (slice (handleDelete_pending True
       \<lparr>imageName = Some ''rose.jpg'', imageUrl = Some ''https://img.example/rose.jpg'',
        latitude = Some 15, longitude = Some 79, id' = Id_string ''p1'',
        uploadedAt = Some ''2024-01-01T00:00:00Z''\<rparr>
       \<lparr>slice = initialState
          \<lparr>plants := [\<lparr>imageName = Some ''rose.jpg'', imageUrl = Some ''https://img.example/rose.jpg'',
                        latitude = Some 15, longitude = Some 79, id' = Id_string ''p1'',
                        uploadedAt = Some ''2024-01-01T00:00:00Z''\<rparr>,
                      \<lparr>imageName = Some ''lily.jpg'', imageUrl = Some ''https://img.example/lily.jpg'',
                        latitude = Some 16, longitude = Some 80, id' = Id_string ''p2'',
                        uploadedAt = Some ''2024-01-02T00:00:00Z''\<rparr>]\<rparr>,
        env = \<lparr>localStorage_available = True, localStorage_quota = 5000000,
               localStorage_item = Some ''p1p2'', console = []\<rparr>,
        api = \<lparr>cache_plants = None, cache_timestamp = None, network = []\<rparr>\<rparr>))
     = [\<lparr>imageName = Some ''rose.jpg'', imageUrl = Some ''https://img.example/rose.jpg'',
         latitude = Some 15, longitude = Some 79, id' = Id_string ''p1'',
         uploadedAt = Some ''2024-01-01T00:00:00Z''\<rparr>,
        \<lparr>imageName = Some ''lily.jpg'', imageUrl = Some ''https://img.example/lily.jpg'',
         latitude = Some 16, longitude = Some 80, id' = Id_string ''p2'',
         uploadedAt = Some ''2024-01-02T00:00:00Z''\<rparr>]
   \<and> network (api (handleDelete_pending True
       \<lparr>imageName = Some ''rose.jpg'', imageUrl = Some ''https://img.example/rose.jpg'',
        latitude = Some 15, longitude = Some 79, id' = Id_string ''p1'',
        uploadedAt = Some ''2024-01-01T00:00:00Z''\<rparr>
       \<lparr>slice = initialState
          \<lparr>plants := [\<lparr>imageName = Some ''rose.jpg'', imageUrl = Some ''https://img.example/rose.jpg'',
                        latitude = Some 15, longitude = Some 79, id' = Id_string ''p1'',
                        uploadedAt = Some ''2024-01-01T00:00:00Z''\<rparr>,
                      \<lparr>imageName = Some ''lily.jpg'', imageUrl = Some ''https://img.example/lily.jpg'',
                        latitude = Some 16, longitude = Some 80, id' = Id_string ''p2'',
                        uploadedAt = Some ''2024-01-02T00:00:00Z''\<rparr>]\<rparr>,
        env = \<lparr>localStorage_available = True, localStorage_quota = 5000000,
               localStorage_item = Some ''p1p2'', console = []\<rparr>,
        api = \<lparr>cache_plants = None, cache_timestamp = None, network = []\<rparr>\<rparr>))
     = [DELETE ''/delete-plant/p1'']
   \<and> plants (slice (handleDelete (concat \<circ> map (id_to_string \<circ> id')) True
       \<lparr>imageName = Some ''rose.jpg'', imageUrl = Some ''https://img.example/rose.jpg'',
        latitude = Some 15, longitude = Some 79, id' = Id_string ''p1'',
        uploadedAt = Some ''2024-01-01T00:00:00Z''\<rparr>
       (Response True ())
       \<lparr>slice = initialState
          \<lparr>plants := [\<lparr>imageName = Some ''rose.jpg'', imageUrl = Some ''https://img.example/rose.jpg'',
                        latitude = Some 15, longitude = Some 79, id' = Id_string ''p1'',
                        uploadedAt = Some ''2024-01-01T00:00:00Z''\<rparr>,
                      \<lparr>imageName = Some ''lily.jpg'', imageUrl = Some ''https://img.example/lily.jpg'',
                        latitude = Some 16, longitude = Some 80, id' = Id_string ''p2'',
                        uploadedAt = Some ''2024-01-02T00:00:00Z''\<rparr>]\<rparr>,
        env = \<lparr>localStorage_available = True, localStorage_quota = 5000000,
               localStorage_item = Some ''p1p2'', console = []\<rparr>,
        api = \<lparr>cache_plants = None, cache_timestamp = None, network = []\<rparr>\<rparr>))
     = [\<lparr>imageName = Some ''lily.jpg'', imageUrl = Some ''https://img.example/lily.jpg'',
         latitude = Some 16, longitude = Some 80, id' = Id_string ''p2'',
         uploadedAt = Some ''2024-01-02T00:00:00Z''\<rparr>]"
  by (simp add: handleDelete_pending_slice handleDelete_pending_api handleDelete_slice send_def)

text \<open>
  Claim C5, as the code has it. Once the user has confirmed, the collection is
  untouched while the remote call is pending (only \<open>loading\<close> is set); when the
  call has settled, whatever the backend answered, every record with the
  plant's id is gone, no further request has been sent, a rejected call has
  left its line on the console, and \<open>savePlantsToLocal\<close> has been called with
  the collection that remains; when \<open>localStorage\<close> takes the write, the mirror
  is the serialised collection. Without the confirmation nothing changes.
\<close>

theorem handleDelete_removes_record:
  "slice (handleDelete_pending True p w) = (slice w)\<lparr>loading := True\<rparr>
   \<and> plants (slice (handleDelete_pending True p w)) = plants (slice w)
   \<and> plants (slice (handleDelete J True p rep w)) = filter (\<lambda>q. id' q \<noteq> id' p) (plants (slice w))
   \<and> (\<forall>q \<in> set (plants (slice (handleDelete J True p rep w))). id' q \<noteq> id' p)
   \<and> network (api (handleDelete J True p rep w)) = network (api (handleDelete_pending True p w))
   \<and> env (handleDelete J True p rep w) =
       snd (savePlantsToLocal J (plants (slice (handleDelete J True p rep w)))
              (case rep of Throws e \<Rightarrow> console_error ''Delete plant error:'' (env w)
                         | Response ok u \<Rightarrow> env w))
   \<and> (localStorage_available (env w)
        \<and> length (J (plants (slice (handleDelete J True p rep w)))) \<le> localStorage_quota (env w)
      \<longrightarrow> localStorage_item (env (handleDelete J True p rep w))
            = Some (J (plants (slice (handleDelete J True p rep w)))))
   \<and> handleDelete J False p rep w = w
   \<and> handleDelete_pending False p w = w"
proof -
  have pl: "plants (slice (handleDelete J True p rep w)) = filter (\<lambda>q. id' q \<noteq> id' p) (plants (slice w))"
    by (simp add: handleDelete_slice)
  have en: "env (handleDelete J True p rep w) =
       snd (savePlantsToLocal J (plants (slice (handleDelete J True p rep w)))
              (deletePlantData_console (id' p) rep (api w) (env w)))"
    by (simp add: handleDelete_env pl)
  have ne: "network (api (handleDelete J True p rep w)) = network (api (handleDelete_pending True p w))"
    by (simp add: handleDelete_api handleDelete_pending_api deletePlantData_network send_def)
  have it: "localStorage_available (env w)
        \<and> length (J (plants (slice (handleDelete J True p rep w)))) \<le> localStorage_quota (env w)
      \<longrightarrow> localStorage_item (env (handleDelete J True p rep w))
            = Some (J (plants (slice (handleDelete J True p rep w))))"
    unfolding en
    by (simp add: savePlantsToLocal_accepted_item deletePlantData_console_storage)
  have no: "handleDelete J False p rep w = w" "handleDelete_pending False p w = w"
    by (simp_all add: handleDelete_def handleDelete_pending_def)
  have pe: "slice (handleDelete_pending True p w) = (slice w)\<lparr>loading := True\<rparr>"
    by (rule handleDelete_pending_slice)
  from pe have pp: "plants (slice (handleDelete_pending True p w)) = plants (slice w)"
    by simp
  have al: "\<forall>q \<in> set (plants (slice (handleDelete J True p rep w))). id' q \<noteq> id' p"
    by (simp add: pl)
  from pe pp pl al ne en [unfolded deletePlantData_console_eq] it no show ?thesis
    by (intro conjI)
qed

text \<open>
  Records \<open>p1\<close> and \<open>p2\<close>, deleting \<open>p1\<close>: both are there while the call is
  pending; for a backend that confirms, one that answers with \<open>success\<close> unset
  and one that cannot be reached, \<open>p2\<close> alone remains in the collection and in
  the mirror, and the unreachable backend leaves the line of the \<open>catch\<close> block
  on the console.
\<close>

theorem handleDelete_removes_record_witness:
  "(let J = (\<lambda>ps. concat (map (\<lambda>q. id_to_string (id' q)) ps));
        p = (\<lambda>i. \<lparr>imageName = Some ''rose.jpg'', imageUrl = Some ''https://img.example/rose.jpg'',
                   latitude = Some 15, longitude = Some 79, id' = Id_string i,
                   uploadedAt = Some ''2024-01-01T00:00:00Z''\<rparr>);
        w = \<lparr>slice = initialState\<lparr>plants := [p ''p1'', p ''p2'']\<rparr>,
             env = \<lparr>localStorage_available = True, localStorage_quota = 5000000,
                    localStorage_item = Some ''p1p2'', console = []\<rparr>,
             api = \<lparr>cache_plants = None, cache_timestamp = None, network = []\<rparr>\<rparr>
    in plants (slice (handleDelete_pending True (p ''p1'') w)) = [p ''p1'', p ''p2'']
       \<and> (\<forall>rep \<in> {Response True (), Response False (), Throws NetworkError}.
             plants (slice (handleDelete J True (p ''p1'') rep w)) = [p ''p2'']
             \<and> localStorage_item (env (handleDelete J True (p ''p1'') rep w)) = Some ''p2'')
       \<and> console (env (handleDelete J True (p ''p1'') (Throws NetworkError) w))
            = [''Delete plant error:''])"
proof -
  let ?J = "\<lambda>ps::plant list. concat (map (\<lambda>q. id_to_string (id' q)) ps)"
  let ?p = "\<lambda>i. \<lparr>imageName = Some ''rose.jpg'', imageUrl = Some ''https://img.example/rose.jpg'',
                   latitude = Some (15::real), longitude = Some (79::real), id' = Id_string i,
                   uploadedAt = Some ''2024-01-01T00:00:00Z''\<rparr>"
  let ?w = "\<lparr>slice = initialState\<lparr>plants := [?p ''p1'', ?p ''p2'']\<rparr>,
             env = \<lparr>localStorage_available = True, localStorage_quota = 5000000,
                    localStorage_item = Some ''p1p2'', console = []\<rparr>,
             api = \<lparr>cache_plants = None, cache_timestamp = None, network = []\<rparr>\<rparr>"
  note h = handleDelete_removes_record [of "?p ''p1''" ?w ?J]
  have pend: "plants (slice (handleDelete_pending True (?p ''p1'') ?w)) = [?p ''p1'', ?p ''p2'']"
    using h [of "Response True ()", THEN conjunct2, THEN conjunct1] by simp
  have fin: "plants (slice (handleDelete ?J True (?p ''p1'') rep ?w)) = [?p ''p2'']
          \<and> localStorage_item (env (handleDelete ?J True (?p ''p1'') rep ?w)) = Some ''p2''" for rep
  proof -
    from h [of rep, THEN conjunct2, THEN conjunct2, THEN conjunct1]
    have pl: "plants (slice (handleDelete ?J True (?p ''p1'') rep ?w)) = [?p ''p2'']"
      by simp
    from h [of rep, THEN conjunct2, THEN conjunct2, THEN conjunct2, THEN conjunct2,
        THEN conjunct2, THEN conjunct2, THEN conjunct1]
    have "localStorage_item (env (handleDelete ?J True (?p ''p1'') rep ?w)) = Some ''p2''"
      unfolding pl by simp
    with pl show ?thesis by simp
  qed
  have pl: "plants (slice (handleDelete ?J True (?p ''p1'') (Throws NetworkError) ?w)) = [?p ''p2'']"
    using fin by blast
  from h [of "Throws NetworkError", THEN conjunct2, THEN conjunct2, THEN conjunct2,
      THEN conjunct2, THEN conjunct2, THEN conjunct1]
  have con: "console (env (handleDelete ?J True (?p ''p1'') (Throws NetworkError) ?w))
            = [''Delete plant error:'']"
    unfolding pl by (simp add: savePlantsToLocal_def setItem_def console_error_def)
  from pend fin con show ?thesis
    unfolding Let_def by blast
qed

text \<open>
  Claim C6. Each of \<open>uploadSuccess\<close>, \<open>fetchPlantsSuccess\<close> and
  \<open>deletePlantSuccess\<close> ends with \<open>savePlantsToLocal\<close> on the collection it has
  just produced; when \<open>localStorage\<close> takes the write (it is available and the
  text fits), the item is exactly the serialised new collection.
\<close>

theorem mirror_reflects_collection_after_mutation:
  "snd (uploadSuccess J p sb) = snd (savePlantsToLocal J (plants (fst (uploadSuccess J p sb))) (snd sb))
   \<and> snd (fetchPlantsSuccess J ps sb) = snd (savePlantsToLocal J (plants (fst (fetchPlantsSuccess J ps sb))) (snd sb))
   \<and> snd (deletePlantSuccess J i sb) = snd (savePlantsToLocal J (plants (fst (deletePlantSuccess J i sb))) (snd sb))
   \<and> (\<forall>sb'. sb' \<in> {uploadSuccess J p sb, fetchPlantsSuccess J ps sb, deletePlantSuccess J i sb}
         \<and> localStorage_available (snd sb) \<and> length (J (plants (fst sb'))) \<le> localStorage_quota (snd sb)
        \<longrightarrow> localStorage_item (snd sb') = Some (J (plants (fst sb'))))"
proof (intro conjI allI impI)
  show "snd (uploadSuccess J p sb) = snd (savePlantsToLocal J (plants (fst (uploadSuccess J p sb))) (snd sb))"
    by (rule uploadSuccess_snd)
  show "snd (fetchPlantsSuccess J ps sb) = snd (savePlantsToLocal J (plants (fst (fetchPlantsSuccess J ps sb))) (snd sb))"
    by (rule fetchPlantsSuccess_snd)
  show "snd (deletePlantSuccess J i sb) = snd (savePlantsToLocal J (plants (fst (deletePlantSuccess J i sb))) (snd sb))"
    by (rule deletePlantSuccess_snd)
next
  fix sb'
  assume h: "sb' \<in> {uploadSuccess J p sb, fetchPlantsSuccess J ps sb, deletePlantSuccess J i sb}
         \<and> localStorage_available (snd sb) \<and> length (J (plants (fst sb'))) \<le> localStorage_quota (snd sb)"
  then have "snd sb' = snd (savePlantsToLocal J (plants (fst sb')) (snd sb))"
    using uploadSuccess_snd [of J p sb] fetchPlantsSuccess_snd [of J ps sb]
      deletePlantSuccess_snd [of J i sb]
    by auto
  with h show "localStorage_item (snd sb') = Some (J (plants (fst sb')))"
    by (simp add: savePlantsToLocal_accepted_item)
qed

text \<open>
  Two records and a working \<open>localStorage\<close>: the mirror after an upload, after a
  fetch and after a deletion.
\<close>

theorem mirror_reflects_collection_after_mutation_witness:
  "(let J = (\<lambda>ps. concat (map (\<lambda>q. id_to_string (id' q)) ps));
        p = (\<lambda>i. \<lparr>imageName = Some ''rose.jpg'', imageUrl = Some ''https://img.example/rose.jpg'',
                   latitude = Some 15, longitude = Some 79, id' = Id_string i,
                   uploadedAt = Some ''2024-01-01T00:00:00Z''\<rparr>);
        sb = (initialState\<lparr>plants := [p ''p1'', p ''p2'']\<rparr>,
              \<lparr>localStorage_available = True, localStorage_quota = 5000000,
               localStorage_item = Some ''p1p2'', console = []\<rparr>)
    in localStorage_item (snd (uploadSuccess J (p ''p3'') sb)) = Some ''p3p1p2''
       \<and> localStorage_item (snd (fetchPlantsSuccess J [p ''p4''] sb)) = Some ''p4''
       \<and> localStorage_item (snd (deletePlantSuccess J (Id_string ''p1'') sb)) = Some ''p2'')"
proof -
  let ?J = "\<lambda>ps::plant list. concat (map (\<lambda>q. id_to_string (id' q)) ps)"
  let ?p = "\<lambda>i. \<lparr>imageName = Some ''rose.jpg'', imageUrl = Some ''https://img.example/rose.jpg'',
                   latitude = Some (15::real), longitude = Some (79::real), id' = Id_string i,
                   uploadedAt = Some ''2024-01-01T00:00:00Z''\<rparr>"
  let ?sb = "(initialState\<lparr>plants := [?p ''p1'', ?p ''p2'']\<rparr>,
              \<lparr>localStorage_available = True, localStorage_quota = 5000000,
               localStorage_item = Some ''p1p2'', console = []\<rparr>)"
  note m = mirror_reflects_collection_after_mutation
      [of ?J "?p ''p3''" ?sb "[?p ''p4'']" "Id_string ''p1''"]
  from m have all: "\<And>sb'. sb' \<in> {uploadSuccess ?J (?p ''p3'') ?sb, fetchPlantsSuccess ?J [?p ''p4''] ?sb,
                  deletePlantSuccess ?J (Id_string ''p1'') ?sb} \<Longrightarrow>
       length (?J (plants (fst sb'))) \<le> 5000000 \<Longrightarrow>
       localStorage_item (snd sb') = Some (?J (plants (fst sb')))"
    by simp
  have "localStorage_item (snd (uploadSuccess ?J (?p ''p3'') ?sb)) = Some ''p3p1p2''"
    using all [of "uploadSuccess ?J (?p ''p3'') ?sb"] by (simp add: uploadSuccess_plants)
  moreover have "localStorage_item (snd (fetchPlantsSuccess ?J [?p ''p4''] ?sb)) = Some ''p4''"
    using all [of "fetchPlantsSuccess ?J [?p ''p4''] ?sb"] by (simp add: fetchPlantsSuccess_plants)
  moreover have "localStorage_item (snd (deletePlantSuccess ?J (Id_string ''p1'') ?sb)) = Some ''p2''"
    using all [of "deletePlantSuccess ?J (Id_string ''p1'') ?sb"] by (simp add: deletePlantSuccess_plants)
  ultimately show ?thesis
    unfolding Let_def by simp
qed

text \<open>
  Claim C7. \<open>loadPlantsFromLocal\<close> never lets an exception reach its caller.
  When the item is absent (or the empty string) it answers the empty collection;
  when the item does not parse, or \<open>localStorage\<close> itself throws, the \<open>catch\<close>
  block writes the diagnostic to the console and answers the empty collection.
\<close>

theorem loadPlantsFromLocal_never_throws:
  "(\<exists>v b'. loadPlantsFromLocal JSON_parse b = Inr (v, b'))
   \<and> (getItem b = Inr None \<or> getItem b = Inr (Some []) \<longrightarrow>
        loadPlantsFromLocal JSON_parse b = Inr (JArr [], b))
   \<and> (\<forall>s e. getItem b = Inr (Some s) \<and> s \<noteq> [] \<and> JSON_parse s = Inl e \<longrightarrow>
        loadPlantsFromLocal JSON_parse b =
          Inr (JArr [], console_error ''Failed to load from localStorage:'' b))
   \<and> (\<forall>e. getItem b = Inl e \<longrightarrow>
        loadPlantsFromLocal JSON_parse b =
          Inr (JArr [], console_error ''Failed to load from localStorage:'' b))"
proof (intro conjI allI impI)
  show "\<exists>v b'. loadPlantsFromLocal JSON_parse b = Inr (v, b')"
    by (rule loadPlantsFromLocal_total)
next
  assume "getItem b = Inr None \<or> getItem b = Inr (Some [])"
  then show "loadPlantsFromLocal JSON_parse b = Inr (JArr [], b)"
    by (auto simp: loadPlantsFromLocal_def loadPlantsFromLocal_try_def)
next
  fix s e
  assume "getItem b = Inr (Some s) \<and> s \<noteq> [] \<and> JSON_parse s = Inl e"
  then show "loadPlantsFromLocal JSON_parse b =
      Inr (JArr [], console_error ''Failed to load from localStorage:'' b)"
    by (simp add: loadPlantsFromLocal_def loadPlantsFromLocal_try_def)
next
  fix e
  assume "getItem b = Inl e"
  then show "loadPlantsFromLocal JSON_parse b =
      Inr (JArr [], console_error ''Failed to load from localStorage:'' b)"
    by (simp add: loadPlantsFromLocal_def loadPlantsFromLocal_try_def)
qed

text \<open>
  The theorem at three browsers, with a parser that rejects every text: no item,
  an item that does not parse, and a \<open>localStorage\<close> that cannot be read.
\<close>

theorem loadPlantsFromLocal_never_throws_witness:
  "loadPlantsFromLocal (\<lambda>s. Inl SyntaxError)
     \<lparr>localStorage_available = True, localStorage_quota = 5000000,
      localStorage_item = None, console = []\<rparr>
   = Inr (JArr [] :: plant json, \<lparr>localStorage_available = True, localStorage_quota = 5000000,
      localStorage_item = None, console = []\<rparr>)
   \<and> loadPlantsFromLocal (\<lambda>s. Inl SyntaxError)
     \<lparr>localStorage_available = True, localStorage_quota = 5000000,
      localStorage_item = Some ''[{oops'', console = []\<rparr>
   = Inr (JArr [] :: plant json, \<lparr>localStorage_available = True, localStorage_quota = 5000000,
      localStorage_item = Some ''[{oops'', console = [''Failed to load from localStorage:'']\<rparr>)
   \<and> loadPlantsFromLocal (\<lambda>s. Inl SyntaxError)
     \<lparr>localStorage_available = False, localStorage_quota = 5000000,
      localStorage_item = None, console = []\<rparr>
   = Inr (JArr [] :: plant json, \<lparr>localStorage_available = False, localStorage_quota = 5000000,
      localStorage_item = None, console = [''Failed to load from localStorage:'']\<rparr>)"
  using loadPlantsFromLocal_never_throws [of "\<lambda>s. Inl SyntaxError :: js_error + plant json"
      "\<lparr>localStorage_available = True, localStorage_quota = 5000000,
        localStorage_item = None, console = []\<rparr>"]
    loadPlantsFromLocal_never_throws [of "\<lambda>s. Inl SyntaxError :: js_error + plant json"
      "\<lparr>localStorage_available = True, localStorage_quota = 5000000,
        localStorage_item = Some ''[{oops'', console = []\<rparr>"]
    loadPlantsFromLocal_never_throws [of "\<lambda>s. Inl SyntaxError :: js_error + plant json"
      "\<lparr>localStorage_available = False, localStorage_quota = 5000000,
        localStorage_item = None, console = []\<rparr>"]
  by (simp add: getItem_def console_error_def)

text \<open>
  Claim C8. \<open>savePlantData\<close> turns away a draft whose latitude or longitude is
  \<open>0\<close>, and a draft without \<open>imageName\<close> or \<open>imageUrl\<close>: the answer is
  \<open>success: false\<close> with the message of the validation error, and the module
  state, with its list of requests, is what it was, so the backend has not been
  contacted.
\<close>

theorem savePlantData_rejects_zero_coordinate:
  "imageName d = None \<or> imageUrl d = None \<or> latitude d = Some 0 \<or> longitude d = Some 0 \<Longrightarrow>
   savePlantData d rep a =
     (\<lparr>success = False, data = None, error = Some ''Missing required plant data fields'',
       fromCache = None\<rparr>, a)"
  by (rule savePlantData_missing_fields) auto

text \<open>
  A draft on the equator, latitude \<open>0\<close> and longitude \<open>20\<close>, both inside the
  ranges of the data model, with a backend that would have accepted it.
\<close>

theorem savePlantData_rejects_zero_coordinate_witness:
  "(- 90 \<le> (0::real) \<and> (0::real) \<le> 90 \<and> - 180 \<le> (20::real) \<and> (20::real) \<le> 180)
   \<and> savePlantData
        \<lparr>imageName = Some ''a.jpg'', imageUrl = Some ''https://img.example/a.jpg'',
         latitude = Some 0, longitude = Some 20\<rparr>
        (Response True
           (Some \<lparr>imageName = Some ''a.jpg'', imageUrl = Some ''https://img.example/a.jpg'',
                  latitude = Some 0, longitude = Some 20, id' = Id_string ''x1'',
                  uploadedAt = Some ''2024-01-01T00:00:00Z'',
                  underscore_id = Id_undefined, createdAt = None\<rparr>))
        \<lparr>cache_plants = None, cache_timestamp = None, network = []\<rparr>
     = (\<lparr>success = False, data = None, error = Some ''Missing required plant data fields'',
         fromCache = None\<rparr>,
        \<lparr>cache_plants = None, cache_timestamp = None, network = []\<rparr>)"
  using savePlantData_rejects_zero_coordinate
    [of "\<lparr>imageName = Some ''a.jpg'', imageUrl = Some ''https://img.example/a.jpg'',
         latitude = Some 0, longitude = Some 20\<rparr>"]
  by simp

text \<open>
  Claim C9. \<open>loadPlantsFromLocal\<close> hands back whatever \<open>JSON.parse\<close> produced:
  when the item is present, not empty and parses to \<open>v\<close>, the caller receives
  \<open>v\<close> itself, array or not, and nothing is logged.
\<close>

theorem loadPlantsFromLocal_returns_parsed_value:
  "getItem b = Inr (Some s) \<Longrightarrow> s \<noteq> [] \<Longrightarrow> JSON_parse s = Inr v \<Longrightarrow>
     loadPlantsFromLocal JSON_parse b = Inr (v, b)"
  by (simp add: loadPlantsFromLocal_def loadPlantsFromLocal_try_def)

text \<open>
  The items \<open>123\<close>, \<open>{}\<close> and \<open>null\<close>, with a parser that knows these three
  texts: a number, an object and \<open>null\<close> come back, none of them an array.
\<close>

theorem loadPlantsFromLocal_returns_parsed_value_witness:
  "(let JSON_parse = (\<lambda>s. if s = ''123'' then Inr (JNum 123)
                            else if s = ''{}'' then Inr (JObj [])
                            else if s = ''null'' then Inr JNull
                            else Inl SyntaxError);
        b = (\<lambda>s. \<lparr>localStorage_available = True, localStorage_quota = 5000000,
                    localStorage_item = Some s, console = []\<rparr>)
    in loadPlantsFromLocal JSON_parse (b ''123'') = Inr (JNum 123 :: plant json, b ''123'')
       \<and> loadPlantsFromLocal JSON_parse (b ''{}'') = Inr (JObj [], b ''{}'')
       \<and> loadPlantsFromLocal JSON_parse (b ''null'') = Inr (JNull, b ''null'')
       \<and> \<not> isArray (JNum 123 :: plant json) \<and> \<not> isArray (JObj [] :: plant json)
       \<and> \<not> isArray (JNull :: plant json))"
proof -
  let ?P = "\<lambda>s. if s = ''123'' then Inr (JNum 123 :: plant json)
                  else if s = ''{}'' then Inr (JObj [])
                  else if s = ''null'' then Inr JNull
                  else Inl SyntaxError"
  let ?b = "\<lambda>s. \<lparr>localStorage_available = True, localStorage_quota = 5000000,
                    localStorage_item = Some s, console = []\<rparr>"
  have "loadPlantsFromLocal ?P (?b ''123'') = Inr (JNum 123, ?b ''123'')"
    by (rule loadPlantsFromLocal_returns_parsed_value [where s = "''123''"])
       (simp_all add: getItem_def)
  moreover have "loadPlantsFromLocal ?P (?b ''{}'') = Inr (JObj [], ?b ''{}'')"
    by (rule loadPlantsFromLocal_returns_parsed_value [where s = "''{}''"])
       (simp_all add: getItem_def)
  moreover have "loadPlantsFromLocal ?P (?b ''null'') = Inr (JNull, ?b ''null'')"
    by (rule loadPlantsFromLocal_returns_parsed_value [where s = "''null''"])
       (simp_all add: getItem_def)
  ultimately show ?thesis
    by (simp add: Let_def)
qed

text \<open>
  Claim C10. \<open>deletePlantSuccess\<close> applied twice with one id leaves the slice
  state that one application leaves; with an id that no record carries, the
  collection stays as it is and the mirror is still written with it.
\<close>

theorem deletePlantSuccess_idempotent:
  "fst (deletePlantSuccess J i (deletePlantSuccess J i sb)) = fst (deletePlantSuccess J i sb)
   \<and> ((\<forall>p \<in> set (plants (fst sb)). id' p \<noteq> i) \<longrightarrow>
        plants (fst (deletePlantSuccess J i sb)) = plants (fst sb)
        \<and> snd (deletePlantSuccess J i sb) = snd (savePlantsToLocal J (plants (fst sb)) (snd sb)))"
proof (intro conjI impI)
  show "fst (deletePlantSuccess J i (deletePlantSuccess J i sb)) = fst (deletePlantSuccess J i sb)"
    by (simp add: deletePlantSuccess_fst)
next
  assume absent: "\<forall>p \<in> set (plants (fst sb)). id' p \<noteq> i"
  then have same: "filter (\<lambda>p. id' p \<noteq> i) (plants (fst sb)) = plants (fst sb)"
    by (simp add: filter_id_conv)
  then show "plants (fst (deletePlantSuccess J i sb)) = plants (fst sb)"
    by (simp add: deletePlantSuccess_plants)
  from same show "snd (deletePlantSuccess J i sb) = snd (savePlantsToLocal J (plants (fst sb)) (snd sb))"
    by (simp add: deletePlantSuccess_snd deletePlantSuccess_plants)
qed

text \<open>
  Two records: deleting the unknown id \<open>zz\<close> keeps both and writes the mirror,
  deleting \<open>p1\<close> once or twice leaves \<open>p2\<close>.
\<close>

theorem deletePlantSuccess_idempotent_witness:
  "(let p = (\<lambda>i. \<lparr>imageName = Some ''rose.jpg'', imageUrl = Some ''https://img.example/rose.jpg'',
                   latitude = Some 15, longitude = Some 79, id' = Id_string i,
                   uploadedAt = Some ''2024-01-01T00:00:00Z''\<rparr>);
        J = (\<lambda>ps. concat (map (\<lambda>q. id_to_string (id' q)) ps));
        b = \<lparr>localStorage_available = True, localStorage_quota = 5000000,
             localStorage_item = None, console = []\<rparr>;
        s = initialState\<lparr>plants := [p ''p1'', p ''p2'']\<rparr>
    in plants (fst (deletePlantSuccess J (Id_string ''zz'') (s, b))) = [p ''p1'', p ''p2'']
       \<and> localStorage_item (snd (deletePlantSuccess J (Id_string ''zz'') (s, b))) = Some ''p1p2''
       \<and> plants (fst (deletePlantSuccess J (Id_string ''p1'') (s, b))) = [p ''p2'']
       \<and> plants (fst (deletePlantSuccess J (Id_string ''p1'') (deletePlantSuccess J (Id_string ''p1'') (s, b))))
           = [p ''p2''])"
proof -
  let ?p = "\<lambda>i. \<lparr>imageName = Some ''rose.jpg'', imageUrl = Some ''https://img.example/rose.jpg'',
                   latitude = Some (15::real), longitude = Some (79::real), id' = Id_string i,
                   uploadedAt = Some ''2024-01-01T00:00:00Z''\<rparr>"
  let ?J = "\<lambda>ps::plant list. concat (map (\<lambda>q. id_to_string (id' q)) ps)"
  let ?b = "\<lparr>localStorage_available = True, localStorage_quota = 5000000,
             localStorage_item = None, console = []\<rparr>"
  let ?s = "initialState\<lparr>plants := [?p ''p1'', ?p ''p2'']\<rparr>"
  have absent: "\<forall>q \<in> set (plants (fst (?s, ?b))). id' q \<noteq> Id_string ''zz''"
    by simp
  have once: "plants (fst (deletePlantSuccess ?J (Id_string ''p1'') (?s, ?b))) = [?p ''p2'']"
    by (simp add: deletePlantSuccess_def Let_def)
  from absent deletePlantSuccess_idempotent [of ?J "Id_string ''zz''" "(?s, ?b)"]
  have "plants (fst (deletePlantSuccess ?J (Id_string ''zz'') (?s, ?b))) = [?p ''p1'', ?p ''p2'']"
    and "localStorage_item (snd (deletePlantSuccess ?J (Id_string ''zz'') (?s, ?b))) = Some ''p1p2''"
    by (simp_all add: savePlantsToLocal_def setItem_def)
  moreover from once deletePlantSuccess_idempotent [of ?J "Id_string ''p1''" "(?s, ?b)"]
  have "plants (fst (deletePlantSuccess ?J (Id_string ''p1'') (deletePlantSuccess ?J (Id_string ''p1'') (?s, ?b))))
           = [?p ''p2'']"
    by simp
  ultimately show ?thesis using once by (simp add: Let_def)
qed

end
